theory Spec2Isabelle
  imports Main "HOL-Library.Monad_Syntax"
begin

section \<open>Data model (src/types/form.ts)\<close>

text \<open>
  The browser's \<^verbatim>\<open>File\<close> object is opaque to the application; the code reads its
  declared MIME type, its size in bytes and its name, nothing else.
\<close>

record File =
  file_name :: string
  file_type :: string
  file_size :: nat

text \<open>\<^verbatim>\<open>interface FormFile { file: File | null; preview: string | null }\<close>\<close>

record FormFile =
  file_obj :: "File option"
  preview :: "string option"

record QualificationData =
  degreeType :: string
  institutionName :: string
  graduationYear :: string
  q_document :: FormFile

record CertificationData =
  name :: string
  issuingBody :: string
  date :: string
  c_document :: FormFile

record BarRegistrationData =
  association :: string
  licenseNumber :: string
  jurisdiction :: string
  completionYear :: string
  b_document :: FormFile

record ProfessionalDetailsData =
  qualifications :: QualificationData
  certifications :: "CertificationData list"
  barRegistration :: BarRegistrationData

record WorkExperiencePosition =
  title :: string
  company :: string
  startDate :: string
  endDate :: string
  current :: bool
  description :: string

record ExperienceData =
  positions :: "WorkExperiencePosition list"

record IdentityVerificationData =
  idType :: string
  idNumber :: string
  expiryDate :: string
  i_document :: FormFile

record BasicDetailsData =
  firstName :: string
  lastName :: string
  email :: string

record FormData =
  basicDetails :: BasicDetailsData
  professionalDetails :: ProfessionalDetailsData
  experience :: ExperienceData
  identityVerification :: IdentityVerificationData

datatype FormSteps =
  basicDetails_step | professionalDetails_step | experience_step
  | identityVerification_step | verificationStatus_step

section \<open>Notifications\<close>

text \<open>
  A call \<^verbatim>\<open>toast({ title, description, variant })\<close> of the notification hook; the
  calls a handler makes are returned as a list, in order.
\<close>

record Toast =
  toast_title :: string
  toast_description :: "string option"
  toast_variant :: "string option"

section \<open>File validator (src/components/FileUpload.tsx)\<close>

text \<open>The result \<^verbatim>\<open>{ valid: boolean; message?: string }\<close>.\<close>

record Validation =
  valid :: bool
  message :: "string option"

definition validTypes :: "string list" where
  "validTypes = [''application/pdf'', ''image/jpeg'', ''image/png'', ''image/jpg'']"

definition maxSize :: nat where
  "maxSize = 5 * 1024 * 1024"

definition validateFile :: "File \<Rightarrow> Validation" where
  "validateFile f =
     (if file_type f \<notin> set validTypes then
        \<lparr>valid = False, message = Some ''Only PDF, JPG, and PNG files are allowed''\<rparr>
      else if file_size f > maxSize then
        \<lparr>valid = False, message = Some ''File size must be less than 5MB''\<rparr>
      else \<lparr>valid = True, message = None\<rparr>)"

text \<open>
  \<^verbatim>\<open>handleFileChange\<close> and \<^verbatim>\<open>handleDrop\<close>. The event carries a file list that may be
  absent (\<open>None\<close>) or empty; only its first file is looked at. The parent's
  \<^verbatim>\<open>onChange\<close> callback is a parameter: a transformer of the parent's state \<open>'s\<close>,
  which is returned unchanged when the callback is not called.
  \<^verbatim>\<open>URL.createObjectURL\<close> belongs to the browser and is a parameter too.
  \<^verbatim>\<open>handleDrop\<close> also resets the component's own \<^verbatim>\<open>isDragging\<close> flag.
\<close>

definition invalid_file_toast :: "Validation \<Rightarrow> Toast" where
  "invalid_file_toast validation =
     \<lparr>toast_title = ''Invalid file'', toast_description = message validation,
      toast_variant = Some ''destructive''\<rparr>"

definition handleFileChange ::
  "(File \<Rightarrow> string) \<Rightarrow> (FormFile \<Rightarrow> 's \<Rightarrow> 's) \<Rightarrow> File list option \<Rightarrow> 's \<Rightarrow> 's \<times> Toast list"
where
  "handleFileChange createObjectURL onChange files s =
     (case files of
        None \<Rightarrow> (s, [])
      | Some [] \<Rightarrow> (s, [])
      | Some (f # _) \<Rightarrow>
          (let validation = validateFile f in
           if \<not> valid validation then (s, [invalid_file_toast validation])
           else (onChange \<lparr>file_obj = Some f, preview = Some (createObjectURL f)\<rparr> s, [])))"

definition handleDrop ::
  "(File \<Rightarrow> string) \<Rightarrow> (FormFile \<Rightarrow> 's \<Rightarrow> 's) \<Rightarrow> File list option \<Rightarrow> bool \<times> 's
     \<Rightarrow> (bool \<times> 's) \<times> Toast list"
where
  "handleDrop createObjectURL onChange files st =
     (case files of
        None \<Rightarrow> ((False, snd st), [])
      | Some [] \<Rightarrow> ((False, snd st), [])
      | Some (f # _) \<Rightarrow>
          (let validation = validateFile f in
           if \<not> valid validation then ((False, snd st), [invalid_file_toast validation])
           else ((False, onChange \<lparr>file_obj = Some f, preview = Some (createObjectURL f)\<rparr> (snd st)),
                 [])))"

text \<open>
  The callback the identity-verification form hands to its upload control:
  \<^verbatim>\<open>(file) => onChange({ ...data, document: file })\<close>.
\<close>

definition identity_document_onChange ::
  "FormFile \<Rightarrow> IdentityVerificationData \<Rightarrow> IdentityVerificationData" where
  "identity_document_onChange v d = d\<lparr>i_document := v\<rparr>"

section \<open>Schema validation (the zod schemas of the four forms)\<close>

text \<open>
  A schema's \<^verbatim>\<open>parse\<close> either returns or throws an error that carries a list of
  issues, each with a path (object keys and array indices) and a message. The schemas
  are modelled as functions from a value of the schema's TypeScript type to the issues
  that \<^verbatim>\<open>parse\<close> raises on it, in the library's order: an object checks its keys in
  the order of the schema, an array checks its length and then its elements, and every
  issue is collected (a failing field does not stop the others). The empty list is
  success.
\<close>

datatype path_elem = Key string | Index nat

type_synonym issue = "path_elem list \<times> string"

definition digit_char :: "nat \<Rightarrow> char" where
  "digit_char d = ''0123456789'' ! d"

function string_of_nat :: "nat \<Rightarrow> string" where
  "string_of_nat n =
     (if n < 10 then [digit_char n] else string_of_nat (n div 10) @ [digit_char (n mod 10)])"
  by pat_completeness auto
termination
  by (relation "measure id") auto

declare string_of_nat.simps [simp del]

fun show_elem :: "path_elem \<Rightarrow> string" where
  "show_elem (Key k) = k"
| "show_elem (Index i) = string_of_nat i"

text \<open>\<^verbatim>\<open>Array.prototype.join\<close> on strings.\<close>

fun join :: "string \<Rightarrow> string list \<Rightarrow> string" where
  "join sep [] = []"
| "join sep [x] = x"
| "join sep (x # y # ys) = x @ sep @ join sep (y # ys)"

text \<open>\<^verbatim>\<open>z.string().min(n, { message })\<close>\<close>

definition z_string_min :: "nat \<Rightarrow> string \<Rightarrow> path_elem list \<Rightarrow> string \<Rightarrow> issue list" where
  "z_string_min n msg path v = (if length v < n then [(path, msg)] else [])"

text \<open>
  \<^verbatim>\<open>z.string().email({ message })\<close>. The library's test of the address syntax is not
  part of the repository; it is the parameter \<open>isEmail\<close>.
\<close>

definition z_string_email :: "(string \<Rightarrow> bool) \<Rightarrow> string \<Rightarrow> path_elem list \<Rightarrow> string \<Rightarrow> issue list"
where
  "z_string_email isEmail msg path v = (if isEmail v then [] else [(path, msg)])"

text \<open>
  \<^verbatim>\<open>z.array(elem).min(n, { message })\<close>: the length issue, if any, comes first, then
  the issues of the elements, each under its index.
\<close>

definition z_array_min ::
  "nat \<Rightarrow> string \<Rightarrow> (path_elem list \<Rightarrow> 'a \<Rightarrow> issue list) \<Rightarrow> path_elem list \<Rightarrow> 'a list \<Rightarrow> issue list"
where
  "z_array_min n msg elem path xs =
     (if length xs < n then [(path, msg)] else [])
     @ concat (map (\<lambda>(i, x). elem (path @ [Index i]) x) (enumerate 0 xs))"

text \<open>
  The library's own message for a too-short array, used where the schema gives none
  (\<^verbatim>\<open>z.array(workExperienceSchema).min(1)\<close>).
\<close>

definition array_min_default_message :: string where
  "array_min_default_message = ''Array must contain at least 1 element(s)''"

text \<open>
  \<^verbatim>\<open>fileSchema\<close> (the same in ProfessionalDetailsForm and IdentityVerificationForm):
  \<^verbatim>\<open>file: z.instanceof(File).nullable().refine(file => file !== null, ...)\<close> and
  \<^verbatim>\<open>preview: z.string().nullable()\<close>. A null file passes \<^verbatim>\<open>nullable\<close> and then fails
  the refinement; the preview is not looked at beyond its type.
\<close>

definition fileSchema :: "path_elem list \<Rightarrow> FormFile \<Rightarrow> issue list" where
  "fileSchema path d =
     (if file_obj d = None then [(path @ [Key ''file''], ''Document is required'')] else [])"

definition basicDetailsSchema :: "(string \<Rightarrow> bool) \<Rightarrow> BasicDetailsData \<Rightarrow> issue list" where
  "basicDetailsSchema isEmail d =
     z_string_min 1 ''First name is required'' [Key ''firstName''] (firstName d)
     @ z_string_min 1 ''Last name is required'' [Key ''lastName''] (lastName d)
     @ z_string_email isEmail ''Invalid email address'' [Key ''email''] (email d)"

definition qualificationSchema :: "path_elem list \<Rightarrow> QualificationData \<Rightarrow> issue list" where
  "qualificationSchema path q =
     z_string_min 1 ''Degree type is required'' (path @ [Key ''degreeType'']) (degreeType q)
     @ z_string_min 1 ''Institution name is required'' (path @ [Key ''institutionName''])
         (institutionName q)
     @ z_string_min 1 ''Graduation year is required'' (path @ [Key ''graduationYear''])
         (graduationYear q)
     @ fileSchema (path @ [Key ''document'']) (q_document q)"

definition certificationSchema :: "path_elem list \<Rightarrow> CertificationData \<Rightarrow> issue list" where
  "certificationSchema path c =
     z_string_min 1 ''Certification name is required'' (path @ [Key ''name'']) (name c)
     @ z_string_min 1 ''Issuing body is required'' (path @ [Key ''issuingBody'']) (issuingBody c)
     @ z_string_min 1 ''Date is required'' (path @ [Key ''date'']) (date c)
     @ fileSchema (path @ [Key ''document'']) (c_document c)"

definition barRegistrationSchema :: "path_elem list \<Rightarrow> BarRegistrationData \<Rightarrow> issue list" where
  "barRegistrationSchema path b =
     z_string_min 1 ''Bar association is required'' (path @ [Key ''association'']) (association b)
     @ z_string_min 1 ''License number is required'' (path @ [Key ''licenseNumber''])
         (licenseNumber b)
     @ z_string_min 1 ''Jurisdiction is required'' (path @ [Key ''jurisdiction'']) (jurisdiction b)
     @ z_string_min 1 ''Completion year is required'' (path @ [Key ''completionYear''])
         (completionYear b)
     @ fileSchema (path @ [Key ''document'']) (b_document b)"

definition professionalDetailsSchema :: "ProfessionalDetailsData \<Rightarrow> issue list" where
  "professionalDetailsSchema d =
     qualificationSchema [Key ''qualifications''] (qualifications d)
     @ z_array_min 1 ''At least one certification is required'' certificationSchema
         [Key ''certifications''] (certifications d)
     @ barRegistrationSchema [Key ''barRegistration''] (barRegistration d)"

text \<open>
  \<^verbatim>\<open>workExperienceSchema\<close>: \<^verbatim>\<open>endDate\<close> is \<^verbatim>\<open>z.string().optional()\<close> and \<^verbatim>\<open>current\<close> is
  \<^verbatim>\<open>z.boolean()\<close>; neither raises an issue on a value of its type.
\<close>

definition workExperienceSchema :: "path_elem list \<Rightarrow> WorkExperiencePosition \<Rightarrow> issue list" where
  "workExperienceSchema path p =
     z_string_min 1 ''Job title is required'' (path @ [Key ''title'']) (title p)
     @ z_string_min 1 ''Company name is required'' (path @ [Key ''company'']) (company p)
     @ z_string_min 1 ''Start date is required'' (path @ [Key ''startDate'']) (startDate p)
     @ z_string_min 1 ''Job description is required'' (path @ [Key ''description''])
         (description p)"

definition experienceSchema :: "ExperienceData \<Rightarrow> issue list" where
  "experienceSchema d =
     z_array_min 1 array_min_default_message workExperienceSchema [Key ''positions'']
       (positions d)"

definition identityVerificationSchema :: "IdentityVerificationData \<Rightarrow> issue list" where
  "identityVerificationSchema d =
     z_string_min 1 ''ID type is required'' [Key ''idType''] (idType d)
     @ z_string_min 1 ''ID number is required'' [Key ''idNumber''] (idNumber d)
     @ z_string_min 1 ''Expiry date is required'' [Key ''expiryDate''] (expiryDate d)
     @ fileSchema [Key ''document''] (i_document d)"

section \<open>The forms' validateForm\<close>

text \<open>
  The \<^verbatim>\<open>catch\<close> branch of every \<^verbatim>\<open>validateForm\<close>: an object filled by
  \<^verbatim>\<open>formattedErrors[err.path.join('.')] = err.message\<close> for each issue in turn, so a
  later issue overwrites an earlier one at the same key.
\<close>

definition formatErrors :: "issue list \<Rightarrow> (string \<rightharpoonup> string)" where
  "formatErrors issues =
     foldl (\<lambda>formattedErrors (path, msg). formattedErrors(join ''.'' (map show_elem path) \<mapsto> msg))
       Map.empty issues"

text \<open>
  \<^verbatim>\<open>validateForm\<close> returns whether the data is valid and the new value of the form's
  \<^verbatim>\<open>errors\<close> state: empty on success, the formatted issues on failure. The four forms
  differ in the schema only.
\<close>

definition validateWith :: "issue list \<Rightarrow> bool \<times> (string \<rightharpoonup> string)" where
  "validateWith issues = (if issues = [] then (True, Map.empty) else (False, formatErrors issues))"

definition BasicDetailsForm_validateForm ::
  "(string \<Rightarrow> bool) \<Rightarrow> BasicDetailsData \<Rightarrow> bool \<times> (string \<rightharpoonup> string)" where
  "BasicDetailsForm_validateForm isEmail d = validateWith (basicDetailsSchema isEmail d)"

definition ProfessionalDetailsForm_validateForm ::
  "ProfessionalDetailsData \<Rightarrow> bool \<times> (string \<rightharpoonup> string)" where
  "ProfessionalDetailsForm_validateForm d = validateWith (professionalDetailsSchema d)"

definition ExperienceForm_validateForm :: "ExperienceData \<Rightarrow> bool \<times> (string \<rightharpoonup> string)" where
  "ExperienceForm_validateForm d = validateWith (experienceSchema d)"

definition IdentityVerificationForm_validateForm ::
  "IdentityVerificationData \<Rightarrow> bool \<times> (string \<rightharpoonup> string)" where
  "IdentityVerificationForm_validateForm d = validateWith (identityVerificationSchema d)"

section \<open>The step controller (MultiStepForm)\<close>

datatype Direction = forward | backward

text \<open>
  The state of the wizard: the three state variables of \<^verbatim>\<open>MultiStepForm\<close> and the
  \<^verbatim>\<open>errors\<close> state of the form that is mounted. Only the form of the current step is
  rendered, so there is one such error map at a time.
\<close>

record WizardState =
  formData :: FormData
  currentStep :: FormSteps
  animationDirection :: Direction
  errors :: "string \<rightharpoonup> string"

definition steps :: "(FormSteps \<times> string) list" where
  "steps =
     [(basicDetails_step, ''Basic Details''),
      (professionalDetails_step, ''Professional Details''),
      (experience_step, ''Experience''),
      (identityVerification_step, ''Identity Verification''),
      (verificationStatus_step, ''Verification Status'')]"

text \<open>\<^verbatim>\<open>Array.prototype.findIndex\<close>: the first index whose element passes, or -1.\<close>

fun findIndex :: "('a \<Rightarrow> bool) \<Rightarrow> 'a list \<Rightarrow> int" where
  "findIndex p [] = -1"
| "findIndex p (x # xs) =
     (if p x then 0 else (let i = findIndex p xs in if i < 0 then -1 else i + 1))"

definition handleNext :: "WizardState \<Rightarrow> WizardState" where
  "handleNext s =
     (let currentIndex = findIndex (\<lambda>step. fst step = currentStep s) steps in
      if currentIndex < int (length steps) - 1 then
        s\<lparr>animationDirection := forward, currentStep := fst (steps ! nat (currentIndex + 1))\<rparr>
      else s)"

text \<open>
  Going back changes the step, so the form that was mounted goes away with its errors
  and the previous step's form is mounted with none. (Going forward needs no such
  reset: \<^verbatim>\<open>handleNext\<close> is only called by a form whose validation has just
  emptied its errors.)
\<close>

definition handlePrevious :: "WizardState \<Rightarrow> WizardState" where
  "handlePrevious s =
     (let currentIndex = findIndex (\<lambda>step. fst step = currentStep s) steps in
      if currentIndex > 0 then
        s\<lparr>animationDirection := backward, currentStep := fst (steps ! nat (currentIndex - 1)),
          errors := Map.empty\<rparr>
      else s)"

text \<open>
  Each form's \<^verbatim>\<open>handleSubmit\<close>: \<^verbatim>\<open>validateForm\<close> sets the form's errors, and
  \<^verbatim>\<open>onNext\<close> (which is \<^verbatim>\<open>handleNext\<close>) is called when the data is valid.
\<close>

definition BasicDetailsForm_handleSubmit :: "(string \<Rightarrow> bool) \<Rightarrow> WizardState \<Rightarrow> WizardState" where
  "BasicDetailsForm_handleSubmit isEmail s =
     (let (isValid, errs) = BasicDetailsForm_validateForm isEmail (basicDetails (formData s));
          s' = s\<lparr>errors := errs\<rparr>
      in if isValid then handleNext s' else s')"

definition ProfessionalDetailsForm_handleSubmit :: "WizardState \<Rightarrow> WizardState" where
  "ProfessionalDetailsForm_handleSubmit s =
     (let (isValid, errs) = ProfessionalDetailsForm_validateForm (professionalDetails (formData s));
          s' = s\<lparr>errors := errs\<rparr>
      in if isValid then handleNext s' else s')"

definition ExperienceForm_handleSubmit :: "WizardState \<Rightarrow> WizardState" where
  "ExperienceForm_handleSubmit s =
     (let (isValid, errs) = ExperienceForm_validateForm (experience (formData s));
          s' = s\<lparr>errors := errs\<rparr>
      in if isValid then handleNext s' else s')"

definition IdentityVerificationForm_handleSubmit :: "WizardState \<Rightarrow> WizardState" where
  "IdentityVerificationForm_handleSubmit s =
     (let (isValid, errs) =
            IdentityVerificationForm_validateForm (identityVerification (formData s));
          s' = s\<lparr>errors := errs\<rparr>
      in if isValid then handleNext s' else s')"

text \<open>
  Pressing "Continue": \<^verbatim>\<open>MultiStepForm\<close> renders the form of the current step, each
  with its part of the form data; the last step renders \<^verbatim>\<open>VerificationStatus\<close>, which
  has no such button.
\<close>

definition advance :: "(string \<Rightarrow> bool) \<Rightarrow> WizardState \<Rightarrow> WizardState" where
  "advance isEmail s =
     (case currentStep s of
        basicDetails_step \<Rightarrow> BasicDetailsForm_handleSubmit isEmail s
      | professionalDetails_step \<Rightarrow> ProfessionalDetailsForm_handleSubmit s
      | experience_step \<Rightarrow> ExperienceForm_handleSubmit s
      | identityVerification_step \<Rightarrow> IdentityVerificationForm_handleSubmit s
      | verificationStatus_step \<Rightarrow> s)"

text \<open>The validator of the form that is rendered at the current step, on its data.\<close>

definition activeValidator ::
  "(string \<Rightarrow> bool) \<Rightarrow> WizardState \<Rightarrow> bool \<times> (string \<rightharpoonup> string)" where
  "activeValidator isEmail s =
     (case currentStep s of
        basicDetails_step \<Rightarrow> BasicDetailsForm_validateForm isEmail (basicDetails (formData s))
      | professionalDetails_step \<Rightarrow>
          ProfessionalDetailsForm_validateForm (professionalDetails (formData s))
      | experience_step \<Rightarrow> ExperienceForm_validateForm (experience (formData s))
      | identityVerification_step \<Rightarrow>
          IdentityVerificationForm_validateForm (identityVerification (formData s))
      | verificationStatus_step \<Rightarrow> (True, errors s))"

text \<open>
  The order of the steps as the specification gives it: basic details, professional
  details, experience, identity verification, verification status (terminal).
\<close>

fun spec_next_step :: "FormSteps \<Rightarrow> FormSteps" where
  "spec_next_step basicDetails_step = professionalDetails_step"
| "spec_next_step professionalDetails_step = experience_step"
| "spec_next_step experience_step = identityVerification_step"
| "spec_next_step identityVerification_step = verificationStatus_step"
| "spec_next_step verificationStatus_step = verificationStatus_step"

section \<open>Adding and removing list entries\<close>

text \<open>
  \<^verbatim>\<open>xs.splice(index, 1)\<close> on a copy of the list: a negative index counts from the end
  (and stops at the start), an index beyond the end removes nothing.
\<close>

definition splice1 :: "int \<Rightarrow> 'a list \<Rightarrow> 'a list" where
  "splice1 index xs =
     (let len = int (length xs);
          start = (if index < 0 then max (len + index) 0 else min index len)
      in take (nat start) xs @ drop (nat start + 1) xs)"

definition newCertification :: CertificationData where
  "newCertification =
     \<lparr>name = [], issuingBody = [], date = [],
      c_document = \<lparr>file_obj = None, preview = None\<rparr>\<rparr>"

definition handleAddCertification :: "ProfessionalDetailsData \<Rightarrow> ProfessionalDetailsData" where
  "handleAddCertification data = data\<lparr>certifications := certifications data @ [newCertification]\<rparr>"

definition handleRemoveCertification :: "int \<Rightarrow> ProfessionalDetailsData \<Rightarrow> ProfessionalDetailsData"
where
  "handleRemoveCertification index data =
     (if length (certifications data) \<le> 1 then data
      else data\<lparr>certifications := splice1 index (certifications data)\<rparr>)"

definition emptyPosition :: WorkExperiencePosition where
  "emptyPosition =
     \<lparr>title = [], company = [], startDate = [], endDate = [], current = False,
      description = []\<rparr>"

definition handleAddPosition :: "ExperienceData \<Rightarrow> ExperienceData" where
  "handleAddPosition data = data\<lparr>positions := positions data @ [emptyPosition]\<rparr>"

definition handleRemovePosition :: "int \<Rightarrow> ExperienceData \<Rightarrow> ExperienceData" where
  "handleRemovePosition index data =
     (if length (positions data) > 1 then data\<lparr>positions := splice1 index (positions data)\<rparr>
      else data)"

text \<open>The initial form data of \<^verbatim>\<open>MultiStepForm\<close>; every string is empty.\<close>

definition initialQualification :: QualificationData where
  "initialQualification =
     \<lparr>degreeType = [], institutionName = [], graduationYear = [],
      q_document = \<lparr>file_obj = None, preview = None\<rparr>\<rparr>"

definition initialCertification :: CertificationData where
  "initialCertification =
     \<lparr>name = [], issuingBody = [], date = [],
      c_document = \<lparr>file_obj = None, preview = None\<rparr>\<rparr>"

definition initialBarRegistration :: BarRegistrationData where
  "initialBarRegistration =
     \<lparr>association = [], licenseNumber = [], jurisdiction = [], completionYear = [],
      b_document = \<lparr>file_obj = None, preview = None\<rparr>\<rparr>"

definition initialFormData :: FormData where
  "initialFormData =
     \<lparr>basicDetails = \<lparr>firstName = [], lastName = [], email = []\<rparr>,
      professionalDetails =
        \<lparr>qualifications = initialQualification,
         certifications = [initialCertification],
         barRegistration = initialBarRegistration\<rparr>,
      experience =
        \<lparr>positions =
           [\<lparr>title = [], company = [], startDate = [], endDate = [], current = False,
             description = []\<rparr>]\<rparr>,
      identityVerification =
        \<lparr>idType = [], idNumber = [], expiryDate = [],
         i_document = \<lparr>file_obj = None, preview = None\<rparr>\<rparr>\<rparr>"

text \<open>The wizard as \<^verbatim>\<open>MultiStepForm\<close> creates it, with the first form mounted.\<close>

definition initialState :: WizardState where
  "initialState =
     \<lparr>formData = initialFormData, currentStep = basicDetails_step,
      animationDirection = forward, errors = Map.empty\<rparr>"

text \<open>Sequences of clicks on the add and remove controls of the two lists.\<close>

datatype list_op = Add | Remove int

fun certification_op :: "ProfessionalDetailsData \<Rightarrow> list_op \<Rightarrow> ProfessionalDetailsData" where
  "certification_op data Add = handleAddCertification data"
| "certification_op data (Remove index) = handleRemoveCertification index data"

fun position_op :: "ExperienceData \<Rightarrow> list_op \<Rightarrow> ExperienceData" where
  "position_op data Add = handleAddPosition data"
| "position_op data (Remove index) = handleRemovePosition index data"

section \<open>Draft persistence (handleSaveDraft and the loading effect of MultiStepForm)\<close>

subsection \<open>JSON values and stored strings\<close>

text \<open>
  The values that \<^verbatim>\<open>JSON.parse\<close> returns. An object is the list of its properties in
  order, without repeated keys. The numbers are integers here: no number occurs in a
  draft that \<^verbatim>\<open>handleSaveDraft\<close> writes.
\<close>

datatype json =
  JNull | JBool bool | JNumber int | JString string | JArray "json list"
  | JObject "(string \<times> json) list"

text \<open>
  A string in the browser's storage is looked at through \<^verbatim>\<open>JSON.parse\<close> and through
  its truth value only. It is either the JSON text of a value (\<open>JSON_text\<close>; what
  \<^verbatim>\<open>JSON.stringify\<close> returns, and \<^verbatim>\<open>JSON.parse\<close> gives the value back), or a string
  that is not JSON text, on which \<^verbatim>\<open>JSON.parse\<close> throws (\<open>Other_text\<close>, with the
  string; the empty string is one of these, and the only string that is false in a
  condition).
\<close>

datatype stored_text = JSON_text json | Other_text string

datatype exn = SyntaxError | TypeError

definition JSON_stringify :: "json \<Rightarrow> stored_text" where
  "JSON_stringify j = JSON_text j"

fun JSON_parse :: "stored_text \<Rightarrow> exn + json" where
  "JSON_parse (JSON_text j) = Inr j"
| "JSON_parse (Other_text s) = Inl SyntaxError"

fun truthy_text :: "stored_text \<Rightarrow> bool" where
  "truthy_text (JSON_text j) = True"
| "truthy_text (Other_text s) = (s \<noteq> [])"

text \<open>\<^verbatim>\<open>localStorage\<close>: \<^verbatim>\<open>getItem\<close> returns null for a key that is not there.\<close>

type_synonym storage = "string \<rightharpoonup> stored_text"

definition getItem :: "storage \<Rightarrow> string \<Rightarrow> stored_text option" where
  "getItem st k = st k"

definition setItem :: "string \<Rightarrow> stored_text \<Rightarrow> storage \<Rightarrow> storage" where
  "setItem k v st = st(k \<mapsto> v)"

definition STORAGE_KEY :: string where
  "STORAGE_KEY = ''lexi_ai_form_data''"

definition FILES_STORAGE_KEY :: string where
  "FILES_STORAGE_KEY = ''lexi_ai_form_files''"

subsection \<open>Saving\<close>

text \<open>
  \<^verbatim>\<open>JSON.stringify(formData, replacer)\<close> walks the form data; the replacer turns a
  \<^verbatim>\<open>File\<close> under the key \<^verbatim>\<open>file\<close> into null and leaves every other value, so the
  \<^verbatim>\<open>file\<close> property is null in the text whether the slot held a file or not. The
  preview stays in the text.
\<close>

fun replacer_file :: "File option \<Rightarrow> json" where
  "replacer_file (Some f) = JNull"
| "replacer_file None = JNull"

fun json_of_nullable_string :: "string option \<Rightarrow> json" where
  "json_of_nullable_string None = JNull"
| "json_of_nullable_string (Some s) = JString s"

definition json_of_FormFile :: "FormFile \<Rightarrow> json" where
  "json_of_FormFile d =
     JObject [(''file'', replacer_file (file_obj d)),
              (''preview'', json_of_nullable_string (preview d))]"

definition json_of_Qualification :: "QualificationData \<Rightarrow> json" where
  "json_of_Qualification q =
     JObject [(''degreeType'', JString (degreeType q)),
              (''institutionName'', JString (institutionName q)),
              (''graduationYear'', JString (graduationYear q)),
              (''document'', json_of_FormFile (q_document q))]"

definition json_of_Certification :: "CertificationData \<Rightarrow> json" where
  "json_of_Certification c =
     JObject [(''name'', JString (name c)),
              (''issuingBody'', JString (issuingBody c)),
              (''date'', JString (date c)),
              (''document'', json_of_FormFile (c_document c))]"

definition json_of_BarRegistration :: "BarRegistrationData \<Rightarrow> json" where
  "json_of_BarRegistration b =
     JObject [(''association'', JString (association b)),
              (''licenseNumber'', JString (licenseNumber b)),
              (''jurisdiction'', JString (jurisdiction b)),
              (''completionYear'', JString (completionYear b)),
              (''document'', json_of_FormFile (b_document b))]"

definition json_of_ProfessionalDetails :: "ProfessionalDetailsData \<Rightarrow> json" where
  "json_of_ProfessionalDetails d =
     JObject [(''qualifications'', json_of_Qualification (qualifications d)),
              (''certifications'', JArray (map json_of_Certification (certifications d))),
              (''barRegistration'', json_of_BarRegistration (barRegistration d))]"

definition json_of_Position :: "WorkExperiencePosition \<Rightarrow> json" where
  "json_of_Position p =
     JObject [(''title'', JString (title p)),
              (''company'', JString (company p)),
              (''startDate'', JString (startDate p)),
              (''endDate'', JString (endDate p)),
              (''current'', JBool (current p)),
              (''description'', JString (description p))]"

definition json_of_Experience :: "ExperienceData \<Rightarrow> json" where
  "json_of_Experience d = JObject [(''positions'', JArray (map json_of_Position (positions d)))]"

definition json_of_IdentityVerification :: "IdentityVerificationData \<Rightarrow> json" where
  "json_of_IdentityVerification d =
     JObject [(''idType'', JString (idType d)),
              (''idNumber'', JString (idNumber d)),
              (''expiryDate'', JString (expiryDate d)),
              (''document'', json_of_FormFile (i_document d))]"

definition json_of_BasicDetails :: "BasicDetailsData \<Rightarrow> json" where
  "json_of_BasicDetails d =
     JObject [(''firstName'', JString (firstName d)),
              (''lastName'', JString (lastName d)),
              (''email'', JString (email d))]"

definition json_of_FormData :: "FormData \<Rightarrow> json" where
  "json_of_FormData d =
     JObject [(''basicDetails'', json_of_BasicDetails (basicDetails d)),
              (''professionalDetails'', json_of_ProfessionalDetails (professionalDetails d)),
              (''experience'', json_of_Experience (experience d)),
              (''identityVerification'', json_of_IdentityVerification (identityVerification d))]"

text \<open>The object \<^verbatim>\<open>fileRefs\<close> of \<^verbatim>\<open>handleSaveDraft\<close>, as JSON.\<close>

definition json_of_preview :: "FormFile \<Rightarrow> json" where
  "json_of_preview d = JObject [(''preview'', json_of_nullable_string (preview d))]"

definition json_of_fileRefs :: "FormData \<Rightarrow> json" where
  "json_of_fileRefs d =
     JObject
       [(''qualifications'',
           json_of_preview (q_document (qualifications (professionalDetails d)))),
        (''barRegistration'',
           json_of_preview (b_document (barRegistration (professionalDetails d)))),
        (''certifications'',
           JArray (map (\<lambda>cert. json_of_preview (c_document cert))
                     (certifications (professionalDetails d)))),
        (''identityVerification'', json_of_preview (i_document (identityVerification d)))]"

datatype effect = ToastCall Toast | ConsoleError string exn

text \<open>
  \<^verbatim>\<open>handleSaveDraft\<close> writes the two keys and shows a notification; the wizard's state
  is not changed. The storage is taken to accept every write.
\<close>

definition handleSaveDraft :: "WizardState \<Rightarrow> storage \<Rightarrow> storage \<times> effect list" where
  "handleSaveDraft s st =
     (let formDataToSave = JSON_stringify (json_of_FormData (formData s));
          fileRefs = json_of_fileRefs (formData s)
      in (setItem FILES_STORAGE_KEY (JSON_stringify fileRefs)
            (setItem STORAGE_KEY formDataToSave st),
          [ToastCall \<lparr>toast_title = ''Draft saved'',
                      toast_description = Some ''Your form progress has been saved'',
                      toast_variant = None\<rparr>]))"

subsection \<open>Loading\<close>

text \<open>
  The loading effect hands the parsed value to \<^verbatim>\<open>setFormData\<close> unchecked, at type
  \<^verbatim>\<open>FormData\<close>. The functions \<open>as_\<dots>\<close> read a JSON value at a TypeScript type: they
  return the value when the JSON is an object with exactly the properties of the type, in
  the order of the type (which is the order in which \<^verbatim>\<open>handleSaveDraft\<close> writes them),
  each of its type, and \<open>None\<close> otherwise. A \<^verbatim>\<open>File\<close> cannot come out of JSON text, so
  a slot's \<^verbatim>\<open>file\<close> must be null. When such a function returns a value, the parsed
  object is that value and nothing else; any other parsed value is outside the type and
  outside this model of the wizard's state.
\<close>

fun props_exactly :: "string list \<Rightarrow> json \<Rightarrow> json list option" where
  "props_exactly keys (JObject kvs) = (if map fst kvs = keys then Some (map snd kvs) else None)"
| "props_exactly keys _ = None"

fun as_string :: "json \<Rightarrow> string option" where
  "as_string (JString s) = Some s"
| "as_string _ = None"

fun as_bool :: "json \<Rightarrow> bool option" where
  "as_bool (JBool b) = Some b"
| "as_bool _ = None"

fun as_nullable_string :: "json \<Rightarrow> string option option" where
  "as_nullable_string JNull = Some None"
| "as_nullable_string (JString s) = Some (Some s)"
| "as_nullable_string _ = None"

fun as_array :: "(json \<Rightarrow> 'a option) \<Rightarrow> json \<Rightarrow> 'a list option" where
  "as_array f (JArray js) = those (map f js)"
| "as_array f _ = None"

definition as_FormFile :: "json \<Rightarrow> FormFile option" where
  "as_FormFile j =
     (case props_exactly [''file'', ''preview''] j of
        Some [f, p] \<Rightarrow>
          if f = JNull then
            do { pv \<leftarrow> as_nullable_string p; Some \<lparr>file_obj = None, preview = pv\<rparr> }
          else None
      | _ \<Rightarrow> None)"

definition as_Qualification :: "json \<Rightarrow> QualificationData option" where
  "as_Qualification j =
     (case props_exactly [''degreeType'', ''institutionName'', ''graduationYear'', ''document''] j
      of
        Some [a, b, c, d] \<Rightarrow>
          do {
            a' \<leftarrow> as_string a;
            b' \<leftarrow> as_string b;
            c' \<leftarrow> as_string c;
            d' \<leftarrow> as_FormFile d;
            Some \<lparr>degreeType = a', institutionName = b', graduationYear = c', q_document = d'\<rparr>
          }
      | _ \<Rightarrow> None)"

definition as_Certification :: "json \<Rightarrow> CertificationData option" where
  "as_Certification j =
     (case props_exactly [''name'', ''issuingBody'', ''date'', ''document''] j of
        Some [a, b, c, d] \<Rightarrow>
          do {
            a' \<leftarrow> as_string a;
            b' \<leftarrow> as_string b;
            c' \<leftarrow> as_string c;
            d' \<leftarrow> as_FormFile d;
            Some \<lparr>name = a', issuingBody = b', date = c', c_document = d'\<rparr>
          }
      | _ \<Rightarrow> None)"

definition as_BarRegistration :: "json \<Rightarrow> BarRegistrationData option" where
  "as_BarRegistration j =
     (case props_exactly
             [''association'', ''licenseNumber'', ''jurisdiction'', ''completionYear'',
              ''document''] j
      of
        Some [a, b, c, y, d] \<Rightarrow>
          do {
            a' \<leftarrow> as_string a;
            b' \<leftarrow> as_string b;
            c' \<leftarrow> as_string c;
            y' \<leftarrow> as_string y;
            d' \<leftarrow> as_FormFile d;
            Some \<lparr>association = a', licenseNumber = b', jurisdiction = c',
                  completionYear = y', b_document = d'\<rparr>
          }
      | _ \<Rightarrow> None)"

definition as_ProfessionalDetails :: "json \<Rightarrow> ProfessionalDetailsData option" where
  "as_ProfessionalDetails j =
     (case props_exactly [''qualifications'', ''certifications'', ''barRegistration''] j of
        Some [q, cs, b] \<Rightarrow>
          do {
            q' \<leftarrow> as_Qualification q;
            cs' \<leftarrow> as_array as_Certification cs;
            b' \<leftarrow> as_BarRegistration b;
            Some \<lparr>qualifications = q', certifications = cs', barRegistration = b'\<rparr>
          }
      | _ \<Rightarrow> None)"

definition as_Position :: "json \<Rightarrow> WorkExperiencePosition option" where
  "as_Position j =
     (case props_exactly
             [''title'', ''company'', ''startDate'', ''endDate'', ''current'', ''description''] j
      of
        Some [a, b, c, e, cur, d] \<Rightarrow>
          do {
            a' \<leftarrow> as_string a;
            b' \<leftarrow> as_string b;
            c' \<leftarrow> as_string c;
            e' \<leftarrow> as_string e;
            cur' \<leftarrow> as_bool cur;
            d' \<leftarrow> as_string d;
            Some \<lparr>title = a', company = b', startDate = c', endDate = e', current = cur',
                  description = d'\<rparr>
          }
      | _ \<Rightarrow> None)"

definition as_Experience :: "json \<Rightarrow> ExperienceData option" where
  "as_Experience j =
     (case props_exactly [''positions''] j of
        Some [ps] \<Rightarrow> do { ps' \<leftarrow> as_array as_Position ps; Some \<lparr>positions = ps'\<rparr> }
      | _ \<Rightarrow> None)"

definition as_IdentityVerification :: "json \<Rightarrow> IdentityVerificationData option" where
  "as_IdentityVerification j =
     (case props_exactly [''idType'', ''idNumber'', ''expiryDate'', ''document''] j of
        Some [a, b, c, d] \<Rightarrow>
          do {
            a' \<leftarrow> as_string a;
            b' \<leftarrow> as_string b;
            c' \<leftarrow> as_string c;
            d' \<leftarrow> as_FormFile d;
            Some \<lparr>idType = a', idNumber = b', expiryDate = c', i_document = d'\<rparr>
          }
      | _ \<Rightarrow> None)"

definition as_BasicDetails :: "json \<Rightarrow> BasicDetailsData option" where
  "as_BasicDetails j =
     (case props_exactly [''firstName'', ''lastName'', ''email''] j of
        Some [a, b, c] \<Rightarrow>
          do {
            a' \<leftarrow> as_string a;
            b' \<leftarrow> as_string b;
            c' \<leftarrow> as_string c;
            Some \<lparr>firstName = a', lastName = b', email = c'\<rparr>
          }
      | _ \<Rightarrow> None)"

definition as_FormData :: "json \<Rightarrow> FormData option" where
  "as_FormData j =
     (case props_exactly
             [''basicDetails'', ''professionalDetails'', ''experience'',
              ''identityVerification''] j
      of
        Some [b, p, e, i] \<Rightarrow>
          do {
            b' \<leftarrow> as_BasicDetails b;
            p' \<leftarrow> as_ProfessionalDetails p;
            e' \<leftarrow> as_Experience e;
            i' \<leftarrow> as_IdentityVerification i;
            Some \<lparr>basicDetails = b', professionalDetails = p', experience = e',
                  identityVerification = i'\<rparr>
          }
      | _ \<Rightarrow> None)"

text \<open>
  The parsed file references are not read at a type: the loading effect looks at them
  through property reads and truth values, and so does the model. A value is false in a
  condition when it is null, \<^verbatim>\<open>false\<close>, zero or the empty string.
\<close>

fun truthy :: "json \<Rightarrow> bool" where
  "truthy JNull = False"
| "truthy (JBool b) = b"
| "truthy (JNumber n) = (n \<noteq> 0)"
| "truthy (JString s) = (s \<noteq> [])"
| "truthy (JArray js) = True"
| "truthy (JObject kvs) = True"

text \<open>
  The property read \<^verbatim>\<open>v.k\<close> on a parsed value, for the names the effect reads
  (\<^verbatim>\<open>qualifications\<close>, \<^verbatim>\<open>barRegistration\<close>, \<^verbatim>\<open>certifications\<close>,
  \<^verbatim>\<open>identityVerification\<close>, \<^verbatim>\<open>preview\<close>, \<^verbatim>\<open>length\<close>): it throws a TypeError on null,
  and is \<^verbatim>\<open>undefined\<close> (\<open>None\<close>) when the value has no such property. Arrays and
  strings have a length.
\<close>

fun get_member :: "json \<Rightarrow> string \<Rightarrow> exn + json option" where
  "get_member JNull k = Inl TypeError"
| "get_member (JObject kvs) k = Inr (map_of kvs k)"
| "get_member (JArray js) k =
     Inr (if k = ''length'' then Some (JNumber (int (length js))) else None)"
| "get_member (JString s) k =
     Inr (if k = ''length'' then Some (JNumber (int (length s))) else None)"
| "get_member (JBool b) k = Inr None"
| "get_member (JNumber n) k = Inr None"

text \<open>
  The value of \<^verbatim>\<open>v.preview\<close> when it is true in a condition (\<open>Some\<close>), and \<open>None\<close>
  when it is false or not there.
\<close>

definition truthy_preview :: "json \<Rightarrow> exn + json option" where
  "truthy_preview v =
     (case get_member v ''preview'' of
        Inl e \<Rightarrow> Inl e
      | Inr None \<Rightarrow> Inr None
      | Inr (Some p) \<Rightarrow> if truthy p then Inr (Some p) else Inr None)"

text \<open>
  The guard \<^verbatim>\<open>fileRefs.k && fileRefs.k.preview\<close>: it throws when \<^verbatim>\<open>fileRefs\<close> is
  null, and otherwise yields the preview to write, if there is a section \<^verbatim>\<open>k\<close> that
  is true in a condition and has a preview that is.
\<close>

definition section_preview :: "json \<Rightarrow> string \<Rightarrow> exn + json option" where
  "section_preview fileRefs k =
     (case get_member fileRefs k of
        Inl e \<Rightarrow> Inl e
      | Inr None \<Rightarrow> Inr None
      | Inr (Some v) \<Rightarrow> if truthy v then truthy_preview v else Inr None)"

text \<open>
  Stored JSON that is not of the type it is used at puts a value outside
  \<^verbatim>\<open>FormData\<close> into the state: parsed data that is not form data, or a preview from
  the file references that is true in a condition but not a string. The model stops
  there and says which value it was.
\<close>

datatype ill_typed = NotFormData json | NotPreview json

text \<open>
  The result of the statements that restore previews: outside the type, or the form data
  so far together with the exception that ended the statements early, if one did. The
  statements write into the objects of the parsed data that \<^verbatim>\<open>setFormData\<close> has
  already received, so what was written before an exception stays in the state.
\<close>

type_synonym 'a restored = "ill_typed + (exn option \<times> 'a)"

definition and_then :: "'a restored \<Rightarrow> ('a \<Rightarrow> 'a restored) \<Rightarrow> 'a restored" where
  "and_then r f =
     (case r of
        Inl i \<Rightarrow> Inl i
      | Inr (Some e, d) \<Rightarrow> Inr (Some e, d)
      | Inr (None, d) \<Rightarrow> f d)"

text \<open>
  One of the three guarded assignments
  \<^verbatim>\<open>if (fileRefs.k && fileRefs.k.preview) { ...document.preview = fileRefs.k.preview }\<close>,
  on the slot it writes to.
\<close>

definition restore_FormFile :: "json \<Rightarrow> string \<Rightarrow> FormFile \<Rightarrow> FormFile restored" where
  "restore_FormFile fileRefs k d =
     (case section_preview fileRefs k of
        Inl e \<Rightarrow> Inr (Some e, d)
      | Inr None \<Rightarrow> Inr (None, d)
      | Inr (Some (JString p)) \<Rightarrow> Inr (None, d\<lparr>preview := Some p\<rparr>)
      | Inr (Some v) \<Rightarrow> Inl (NotPreview v))"

text \<open>
  The body of \<^verbatim>\<open>fileRefs.certifications.forEach((cert, index) => ...)\<close>, element by
  element: \<^verbatim>\<open>cert.preview\<close> is read only when the restored list has the index, and is
  written there when it is true in a condition.
\<close>

fun restore_certification ::
  "(nat \<times> json) list \<Rightarrow> CertificationData list \<Rightarrow> CertificationData list restored" where
  "restore_certification [] certs = Inr (None, certs)"
| "restore_certification ((index, cert) # rest) certs =
     (if index < length certs then
        (case truthy_preview cert of
           Inl e \<Rightarrow> Inr (Some e, certs)
         | Inr None \<Rightarrow> restore_certification rest certs
         | Inr (Some (JString p)) \<Rightarrow>
             restore_certification rest
               (certs[index := (certs ! index)
                        \<lparr>c_document := (c_document (certs ! index))\<lparr>preview := Some p\<rparr>\<rparr>])
         | Inr (Some v) \<Rightarrow> Inl (NotPreview v))
      else restore_certification rest certs)"

text \<open>
  \<^verbatim>\<open>if (fileRefs.certifications && fileRefs.certifications.length) { ...forEach... }\<close>:
  only an array has \<^verbatim>\<open>forEach\<close>; on a string, or an object with a length, the call
  throws a TypeError.
\<close>

definition restore_certifications ::
  "json \<Rightarrow> CertificationData list \<Rightarrow> CertificationData list restored" where
  "restore_certifications fileRefs certs =
     (case get_member fileRefs ''certifications'' of
        Inl e \<Rightarrow> Inr (Some e, certs)
      | Inr None \<Rightarrow> Inr (None, certs)
      | Inr (Some c) \<Rightarrow>
          if \<not> truthy c then Inr (None, certs)
          else
            (case get_member c ''length'' of
               Inl e \<Rightarrow> Inr (Some e, certs)
             | Inr None \<Rightarrow> Inr (None, certs)
             | Inr (Some len) \<Rightarrow>
                 if \<not> truthy len then Inr (None, certs)
                 else
                   (case c of
                      JArray js \<Rightarrow> restore_certification (enumerate 0 js) certs
                    | _ \<Rightarrow> Inr (Some TypeError, certs))))"

text \<open>
  The four statements in the order of the source: qualifications, bar registration,
  certifications, identity verification.
\<close>

definition restore_qualifications :: "json \<Rightarrow> FormData \<Rightarrow> FormData restored" where
  "restore_qualifications fileRefs d =
     (case restore_FormFile fileRefs ''qualifications''
             (q_document (qualifications (professionalDetails d))) of
        Inl i \<Rightarrow> Inl i
      | Inr (e, doc) \<Rightarrow>
          Inr (e, d\<lparr>professionalDetails :=
                     (professionalDetails d)
                       \<lparr>qualifications :=
                          (qualifications (professionalDetails d))\<lparr>q_document := doc\<rparr>\<rparr>\<rparr>))"

definition restore_barRegistration :: "json \<Rightarrow> FormData \<Rightarrow> FormData restored" where
  "restore_barRegistration fileRefs d =
     (case restore_FormFile fileRefs ''barRegistration''
             (b_document (barRegistration (professionalDetails d))) of
        Inl i \<Rightarrow> Inl i
      | Inr (e, doc) \<Rightarrow>
          Inr (e, d\<lparr>professionalDetails :=
                     (professionalDetails d)
                       \<lparr>barRegistration :=
                          (barRegistration (professionalDetails d))\<lparr>b_document := doc\<rparr>\<rparr>\<rparr>))"

definition restore_certification_previews :: "json \<Rightarrow> FormData \<Rightarrow> FormData restored" where
  "restore_certification_previews fileRefs d =
     (case restore_certifications fileRefs (certifications (professionalDetails d)) of
        Inl i \<Rightarrow> Inl i
      | Inr (e, certs) \<Rightarrow>
          Inr (e, d\<lparr>professionalDetails := (professionalDetails d)\<lparr>certifications := certs\<rparr>\<rparr>))"

definition restore_identityVerification :: "json \<Rightarrow> FormData \<Rightarrow> FormData restored" where
  "restore_identityVerification fileRefs d =
     (case restore_FormFile fileRefs ''identityVerification''
             (i_document (identityVerification d)) of
        Inl i \<Rightarrow> Inl i
      | Inr (e, doc) \<Rightarrow>
          Inr (e, d\<lparr>identityVerification := (identityVerification d)\<lparr>i_document := doc\<rparr>\<rparr>))"

definition restorePreviews :: "json \<Rightarrow> FormData \<Rightarrow> FormData restored" where
  "restorePreviews fileRefs parsedData =
     and_then
       (and_then
          (and_then (restore_qualifications fileRefs parsedData)
             (restore_barRegistration fileRefs))
          (restore_certification_previews fileRefs))
       (restore_identityVerification fileRefs)"

definition draft_loaded_toast :: effect where
  "draft_loaded_toast =
     ToastCall \<lparr>toast_title = ''Draft loaded'',
                toast_description = Some ''Your previously saved form data has been restored'',
                toast_variant = None\<rparr>"

definition parse_error_log :: "exn \<Rightarrow> effect" where
  "parse_error_log e = ConsoleError ''Error parsing saved form data:'' e"

text \<open>
  The effect that runs when \<^verbatim>\<open>MultiStepForm\<close> is mounted, on the state the component
  has then. Without a stored draft nothing happens. A draft that does not parse is
  caught and logged, and the state stays. Otherwise the parsed data becomes the form
  data, before anything else is done. When file references are stored too, they are
  parsed and their previews are written over the parsed data; an exception there (the
  references do not parse, or a TypeError while they are read) is caught and logged by
  the same handler, with the parsed data, and what was written over it so far, already
  in the state. The notification is shown when nothing was thrown. The current step, the
  direction and the errors are not touched.
\<close>

definition loadDraft :: "storage \<Rightarrow> WizardState \<Rightarrow> ill_typed + (WizardState \<times> effect list)" where
  "loadDraft st s =
     (case getItem st STORAGE_KEY of
        None \<Rightarrow> Inr (s, [])
      | Some savedData \<Rightarrow>
          if \<not> truthy_text savedData then Inr (s, [])
          else
            (case JSON_parse savedData of
               Inl error \<Rightarrow> Inr (s, [parse_error_log error])
             | Inr parsed \<Rightarrow>
                 (case as_FormData parsed of
                    None \<Rightarrow> Inl (NotFormData parsed)
                  | Some parsedData \<Rightarrow>
                      (case getItem st FILES_STORAGE_KEY of
                         None \<Rightarrow> Inr (s\<lparr>formData := parsedData\<rparr>, [draft_loaded_toast])
                       | Some savedFiles \<Rightarrow>
                           if \<not> truthy_text savedFiles then
                             Inr (s\<lparr>formData := parsedData\<rparr>, [draft_loaded_toast])
                           else
                             (case JSON_parse savedFiles of
                                Inl error \<Rightarrow>
                                  Inr (s\<lparr>formData := parsedData\<rparr>, [parse_error_log error])
                              | Inr fileRefs \<Rightarrow>
                                  (case restorePreviews fileRefs parsedData of
                                     Inl i \<Rightarrow> Inl i
                                   | Inr (None, updatedFormData) \<Rightarrow>
                                       Inr (s\<lparr>formData := updatedFormData\<rparr>,
                                            [draft_loaded_toast])
                                   | Inr (Some error, updatedFormData) \<Rightarrow>
                                       Inr (s\<lparr>formData := updatedFormData\<rparr>,
                                            [parse_error_log error])))))))"

text \<open>
  The form data with every file handle removed, as the specification describes the
  saved copy; and the form data in which no slot holds a file.
\<close>

definition strip_FormFile :: "FormFile \<Rightarrow> FormFile" where
  "strip_FormFile d = d\<lparr>file_obj := None\<rparr>"

definition strip_files :: "FormData \<Rightarrow> FormData" where
  "strip_files d =
     d\<lparr>professionalDetails :=
         (professionalDetails d)
           \<lparr>qualifications :=
              (qualifications (professionalDetails d))
                \<lparr>q_document := strip_FormFile (q_document (qualifications (professionalDetails d)))\<rparr>,
            certifications :=
              map (\<lambda>c. c\<lparr>c_document := strip_FormFile (c_document c)\<rparr>)
                (certifications (professionalDetails d)),
            barRegistration :=
              (barRegistration (professionalDetails d))
                \<lparr>b_document :=
                   strip_FormFile (b_document (barRegistration (professionalDetails d)))\<rparr>\<rparr>,
       identityVerification :=
         (identityVerification d)
           \<lparr>i_document := strip_FormFile (i_document (identityVerification d))\<rparr>\<rparr>"

definition no_files :: "FormData \<Rightarrow> bool" where
  "no_files d \<longleftrightarrow>
     file_obj (q_document (qualifications (professionalDetails d))) = None
     \<and> list_all (\<lambda>c. file_obj (c_document c) = None) (certifications (professionalDetails d))
     \<and> file_obj (b_document (barRegistration (professionalDetails d))) = None
     \<and> file_obj (i_document (identityVerification d)) = None"

section \<open>Auxiliary notions for the proofs\<close>

text \<open>The issues with their paths joined, as \<^const>\<open>formatErrors\<close> keys them.\<close>

definition keyed :: "issue list \<Rightarrow> (string \<times> string) list" where
  "keyed issues = map (\<lambda>(path, msg). (join ''.'' (map show_elem path), msg)) issues"

text \<open>Reading a decimal numeral back, to show that \<^const>\<open>string_of_nat\<close> is injective.\<close>

definition digit_val :: "char \<Rightarrow> nat" where
  "digit_val c = of_char c - 48"

definition nat_of_string :: "string \<Rightarrow> nat" where
  "nat_of_string s = foldl (\<lambda>acc c. 10 * acc + digit_val c) 0 s"

section \<open>Properties of the file validator\<close>

text \<open>
  C2. A candidate file whose declared MIME type is none of the accepted ones is rejected
  with the type message, whatever its size: the type is tested first. The accepted
  declared types are PDF (\<^verbatim>\<open>application/pdf\<close>), JPEG (which the code spells both
  \<^verbatim>\<open>image/jpeg\<close> and \<^verbatim>\<open>image/jpg\<close>) and PNG (\<^verbatim>\<open>image/png\<close>).
\<close>

theorem validateFile_rejects_type:
  assumes "file_type f \<notin> {''application/pdf'', ''image/jpeg'', ''image/jpg'', ''image/png''}"
  shows "validateFile f =
           \<lparr>valid = False, message = Some ''Only PDF, JPG, and PNG files are allowed''\<rparr>"
  using assms by (simp add: validateFile_def validTypes_def)

theorem validateFile_rejects_type_witness:
  "validateFile \<lparr>file_name = ''notes.txt'', file_type = ''text/plain'', file_size = 6000000\<rparr> =
     \<lparr>valid = False, message = Some ''Only PDF, JPG, and PNG files are allowed''\<rparr>"
  using validateFile_rejects_type
    [of "\<lparr>file_name = ''notes.txt'', file_type = ''text/plain'', file_size = 6000000\<rparr>"]
  by simp

text \<open>
  C3. A candidate file of an accepted declared type is rejected with the size message
  when its size exceeds 5 * 1024 * 1024 bytes, and is valid when its size is at most
  that.
\<close>

theorem validateFile_size:
  assumes "file_type f \<in> {''application/pdf'', ''image/jpeg'', ''image/jpg'', ''image/png''}"
  shows "(file_size f > 5 * 1024 * 1024 \<longrightarrow>
            validateFile f = \<lparr>valid = False, message = Some ''File size must be less than 5MB''\<rparr>)
       \<and> (file_size f \<le> 5 * 1024 * 1024 \<longrightarrow>
            validateFile f = \<lparr>valid = True, message = None\<rparr>)"
  using assms by (auto simp add: validateFile_def validTypes_def maxSize_def)

theorem validateFile_size_witness:
  "validateFile \<lparr>file_name = ''scan.pdf'', file_type = ''application/pdf'', file_size = 5242881\<rparr> =
     \<lparr>valid = False, message = Some ''File size must be less than 5MB''\<rparr>
   \<and> validateFile \<lparr>file_name = ''scan.png'', file_type = ''image/png'', file_size = 5242880\<rparr> =
     \<lparr>valid = True, message = None\<rparr>"
  using validateFile_size
    [of "\<lparr>file_name = ''scan.pdf'', file_type = ''application/pdf'', file_size = 5242881\<rparr>"]
    validateFile_size
    [of "\<lparr>file_name = ''scan.png'', file_type = ''image/png'', file_size = 5242880\<rparr>"]
  by simp

text \<open>
  C6. When the first selected or dropped file fails validation, the parent's callback
  is not called, so the parent's state (and with it the slot's file and preview) is what
  it was, and the only effect is one destructive "Invalid file" notification that carries
  the validator's message.
\<close>

theorem rejected_file_not_written:
  assumes "\<not> valid (validateFile f)"
  shows "handleFileChange createObjectURL onChange (Some (f # fs)) s =
           (s, [\<lparr>toast_title = ''Invalid file'', toast_description = message (validateFile f),
                 toast_variant = Some ''destructive''\<rparr>])
       \<and> handleDrop createObjectURL onChange (Some (f # fs)) (dragging, s) =
           ((False, s), [\<lparr>toast_title = ''Invalid file'',
                           toast_description = message (validateFile f),
                           toast_variant = Some ''destructive''\<rparr>])
       \<and> message (validateFile f) \<noteq> None"
  using assms
  by (auto simp add: handleFileChange_def handleDrop_def invalid_file_toast_def Let_def
      validateFile_def split: if_splits)

theorem rejected_file_not_written_witness:
  "handleFileChange (\<lambda>f. ''blob:'' @ file_name f) identity_document_onChange
     (Some [\<lparr>file_name = ''notes.txt'', file_type = ''text/plain'', file_size = 10\<rparr>])
     \<lparr>idType = ''Passport'', idNumber = ''X1'', expiryDate = ''2030-01-01'',
      i_document = \<lparr>file_obj = Some \<lparr>file_name = ''id.png'', file_type = ''image/png'',
                                      file_size = 2048\<rparr>,
                    preview = Some ''blob:id.png''\<rparr>\<rparr>
   = (\<lparr>idType = ''Passport'', idNumber = ''X1'', expiryDate = ''2030-01-01'',
       i_document = \<lparr>file_obj = Some \<lparr>file_name = ''id.png'', file_type = ''image/png'',
                                       file_size = 2048\<rparr>,
                     preview = Some ''blob:id.png''\<rparr>\<rparr>,
      [\<lparr>toast_title = ''Invalid file'',
        toast_description = Some ''Only PDF, JPG, and PNG files are allowed'',
        toast_variant = Some ''destructive''\<rparr>])"
proof -
  let ?f = "\<lparr>file_name = ''notes.txt'', file_type = ''text/plain'', file_size = 10\<rparr>"
  have bad: "\<not> valid (validateFile ?f)"
    by (simp add: validateFile_def validTypes_def)
  have msg: "message (validateFile ?f) = Some ''Only PDF, JPG, and PNG files are allowed''"
    by (simp add: validateFile_def validTypes_def)
  show ?thesis
    using rejected_file_not_written [OF bad, of "\<lambda>f. ''blob:'' @ file_name f"
        identity_document_onChange "[]"] msg
    by simp
qed

section \<open>Lemmas on error maps\<close>

lemma digit_val_digit_char: "d < 10 \<Longrightarrow> digit_val (digit_char d) = d"
proof -
  assume "d < 10"
  then have "d \<in> {0, 1, 2, 3, 4, 5, 6, 7, 8, 9}" by auto
  then show ?thesis
    by (auto simp add: digit_val_def digit_char_def)
qed

lemma nat_of_string_of_nat: "nat_of_string (string_of_nat n) = n"
proof (induction n rule: string_of_nat.induct)
  case (1 n)
  show ?case
  proof (cases "n < 10")
    case True
    then show ?thesis
      by (simp add: string_of_nat.simps [of n] nat_of_string_def digit_val_digit_char)
  next
    case False
    then have "nat_of_string (string_of_nat (n div 10)) = n div 10"
      using 1 by simp
    then show ?thesis
      using False
      by (simp add: string_of_nat.simps [of n] nat_of_string_def digit_val_digit_char)
  qed
qed

lemma string_of_nat_inj: "string_of_nat i = string_of_nat j \<longleftrightarrow> i = j"
  by (metis nat_of_string_of_nat)

lemma keyed_append [simp]: "keyed (xs @ ys) = keyed xs @ keyed ys"
  by (simp add: keyed_def)

lemma keyed_Nil [simp]: "keyed [] = []"
  by (simp add: keyed_def)

lemma keyed_Cons [simp]: "keyed ((p, m) # xs) = (join ''.'' (map show_elem p), m) # keyed xs"
  by (simp add: keyed_def)

lemma keyed_eq_Nil [simp]: "keyed xs = [] \<longleftrightarrow> xs = []"
  by (simp add: keyed_def)

lemma set_keyed: "set (keyed ys) = (\<lambda>(p, m). (join ''.'' (map show_elem p), m)) ` set ys"
  by (simp add: keyed_def)

lemma formatErrors_foldl:
  "foldl (\<lambda>formattedErrors (path, msg). formattedErrors(join ''.'' (map show_elem path) \<mapsto> msg))
     m issues
   = m ++ map_of (rev (keyed issues))"
proof (induction issues arbitrary: m)
  case Nil
  then show ?case by simp
next
  case (Cons a issues)
  obtain p msg where a: "a = (p, msg)" by (cases a)
  show ?case
    by (simp add: a Cons.IH map_add_upd_left del: fun_upd_apply)
qed

lemma formatErrors_map_of: "formatErrors issues = map_of (rev (keyed issues))"
  by (simp add: formatErrors_def formatErrors_foldl)

lemma formatErrors_nonempty: "issues \<noteq> [] \<Longrightarrow> formatErrors issues \<noteq> Map.empty"
  by (simp add: formatErrors_map_of map_of_eq_empty_iff)

lemma snd_validateWith: "snd (validateWith issues) = formatErrors issues"
  by (simp add: validateWith_def formatErrors_def)

lemma fst_validateWith: "fst (validateWith issues) = (issues = [])"
  by (simp add: validateWith_def)

lemma map_of_rev_unique:
  assumes "\<forall>m. (k, m) \<in> set kvs \<longrightarrow> m = M"
  shows "map_of (rev kvs) k = (if k \<in> fst ` set kvs then Some M else None)"
proof (cases "map_of (rev kvs) k")
  case None
  then have "k \<notin> fst ` set kvs"
    by (metis map_of_eq_None_iff set_rev)
  then show ?thesis using None by simp
next
  case (Some v)
  then have "(k, v) \<in> set kvs"
    by (metis map_of_SomeD set_rev)
  then show ?thesis using Some assms by force
qed

text \<open>
  When every issue filed under a key carries the same message, the error map holds that
  message at the key exactly when there is such an issue.
\<close>

lemma lookup_unique_key:
  assumes "\<And>m. (k, m) \<in> set (keyed issues) \<longleftrightarrow> m = M \<and> P"
  shows "formatErrors issues k = (if P then Some M else None)"
proof -
  have "\<forall>m. (k, m) \<in> set (keyed issues) \<longrightarrow> m = M"
    using assms by blast
  then have "map_of (rev (keyed issues)) k =
      (if k \<in> fst ` set (keyed issues) then Some M else None)"
    by (rule map_of_rev_unique)
  moreover have "k \<in> fst ` set (keyed issues) \<longleftrightarrow> (\<exists>m. (k, m) \<in> set (keyed issues))"
    by force
  ultimately show ?thesis
    by (simp add: formatErrors_map_of assms)
qed

lemma set_concat_enumerate:
  "set (concat (map (\<lambda>(i, x). g i x) (enumerate 0 xs))) =
     (\<Union>i \<in> {..<length xs}. set (g i (xs ! i)))"
  by (force simp add: in_set_enumerate_eq)

lemma set_z_array_min:
  "set (z_array_min n msg elem path xs) =
     (if length xs < n then {(path, msg)} else {})
     \<union> (\<Union>i \<in> {..<length xs}. set (elem (path @ [Index i]) (xs ! i)))"
proof -
  have "set (concat (map (\<lambda>(i, x). elem (path @ [Index i]) x) (enumerate 0 xs)))
        = (\<Union>i \<in> {..<length xs}. set (elem (path @ [Index i]) (xs ! i)))"
    by (rule set_concat_enumerate)
  then show ?thesis
    by (simp add: z_array_min_def del: set_concat)
qed

lemma set_keyed_array:
  "set (keyed (z_array_min n msg elem path xs)) =
     (if length xs < n then {(join ''.'' (map show_elem path), msg)} else {})
     \<union> (\<Union>i \<in> {..<length xs}. set (keyed (elem (path @ [Index i]) (xs ! i))))"
  by (simp add: set_keyed set_z_array_min image_Un image_UN)

lemma z_array_min_Nil:
  "z_array_min n msg elem path xs = [] \<longleftrightarrow>
     \<not> length xs < n \<and> (\<forall>i < length xs. elem (path @ [Index i]) (xs ! i) = [])"
proof -
  have "z_array_min n msg elem path xs = [] \<longleftrightarrow> set (z_array_min n msg elem path xs) = {}"
    by simp
  also have "\<dots> \<longleftrightarrow> \<not> length xs < n \<and> (\<forall>i < length xs. elem (path @ [Index i]) (xs ! i) = [])"
    unfolding set_z_array_min by auto
  finally show ?thesis .
qed

section \<open>Properties of the step validators\<close>

text \<open>
  C8. On the basic-details record with an empty first name, last name "Doe" and email
  "a@b.com", the validator of the basic-details form fails and its error map has the
  single entry firstName: "First name is required". The test of the address syntax
  belongs to the validation library; the statement holds for every such test that
  accepts "a@b.com".
\<close>

theorem basicDetails_empty_firstName:
  assumes "isEmail ''a@b.com''"
  shows "BasicDetailsForm_validateForm isEmail
           \<lparr>firstName = [], lastName = ''Doe'', email = ''a@b.com''\<rparr>
         = (False, [''firstName'' \<mapsto> ''First name is required''])"
  using assms
  by (simp add: BasicDetailsForm_validateForm_def validateWith_def basicDetailsSchema_def
      z_string_min_def z_string_email_def formatErrors_def)

theorem basicDetails_empty_firstName_witness:
  "BasicDetailsForm_validateForm (\<lambda>v. CHR ''@'' \<in> set v)
     \<lparr>firstName = [], lastName = ''Doe'', email = ''a@b.com''\<rparr>
   = (False, [''firstName'' \<mapsto> ''First name is required''])"
  using basicDetails_empty_firstName [of "\<lambda>v. CHR ''@'' \<in> set v"]
  by simp

text \<open>
  C9. The validator of the experience form rejects every record with no position, and
  accepts a record with one position whose title, company, start date and description
  are not empty, with the current flag set and an end date that is not empty.
\<close>

theorem experience_validator:
  "(positions d = [] \<longrightarrow> \<not> fst (ExperienceForm_validateForm d))
   \<and> (title p \<noteq> [] \<and> company p \<noteq> [] \<and> startDate p \<noteq> [] \<and> description p \<noteq> []
        \<and> current p \<and> endDate p \<noteq> []
      \<longrightarrow> ExperienceForm_validateForm \<lparr>positions = [p]\<rparr> = (True, Map.empty))"
  by (simp add: ExperienceForm_validateForm_def validateWith_def experienceSchema_def
      z_array_min_def workExperienceSchema_def z_string_min_def Suc_le_eq)

theorem experience_validator_witness:
  "\<not> fst (ExperienceForm_validateForm \<lparr>positions = []\<rparr>)
   \<and> ExperienceForm_validateForm
       \<lparr>positions = [\<lparr>title = ''Counsel'', company = ''Acme'', startDate = ''2020-01-01'',
                      endDate = ''2021-01-01'', current = True,
                      description = ''Contracts''\<rparr>]\<rparr>
     = (True, Map.empty)"
  using experience_validator [of "\<lparr>positions = []\<rparr>"
      "\<lparr>title = ''Counsel'', company = ''Acme'', startDate = ''2020-01-01'',
        endDate = ''2021-01-01'', current = True, description = ''Contracts''\<rparr>"]
  by simp

lemma identity_document_entry:
  "snd (IdentityVerificationForm_validateForm d) ''document.file'' =
     (if file_obj (i_document d) = None then Some ''Document is required'' else None)"
  unfolding IdentityVerificationForm_validateForm_def snd_validateWith
  by (rule lookup_unique_key)
     (auto simp add: identityVerificationSchema_def z_string_min_def fileSchema_def)

lemma qualification_document_entry:
  "snd (ProfessionalDetailsForm_validateForm d) ''qualifications.document.file'' =
     (if file_obj (q_document (qualifications d)) = None then Some ''Document is required''
      else None)"
  unfolding ProfessionalDetailsForm_validateForm_def snd_validateWith
  by (rule lookup_unique_key)
     (auto simp add: professionalDetailsSchema_def set_keyed_array qualificationSchema_def
        barRegistrationSchema_def certificationSchema_def z_string_min_def fileSchema_def)

lemma barRegistration_document_entry:
  "snd (ProfessionalDetailsForm_validateForm d) ''barRegistration.document.file'' =
     (if file_obj (b_document (barRegistration d)) = None then Some ''Document is required''
      else None)"
  unfolding ProfessionalDetailsForm_validateForm_def snd_validateWith
  by (rule lookup_unique_key)
     (auto simp add: professionalDetailsSchema_def set_keyed_array qualificationSchema_def
        barRegistrationSchema_def certificationSchema_def z_string_min_def fileSchema_def)

lemma certification_document_entry:
  assumes "i < length (certifications d)"
  shows "snd (ProfessionalDetailsForm_validateForm d)
           (''certifications.'' @ string_of_nat i @ ''.document.file'') =
         (if file_obj (c_document (certifications d ! i)) = None
          then Some ''Document is required'' else None)"
  unfolding ProfessionalDetailsForm_validateForm_def snd_validateWith
  by (rule lookup_unique_key)
     (use assms in \<open>auto simp add: professionalDetailsSchema_def set_keyed_array
        qualificationSchema_def barRegistrationSchema_def certificationSchema_def
        z_string_min_def fileSchema_def string_of_nat_inj\<close>)

lemma fileSchema_Nil: "fileSchema path d = [] \<longleftrightarrow> file_obj d \<noteq> None"
  by (simp add: fileSchema_def)

lemma identity_valid_has_file:
  "fst (IdentityVerificationForm_validateForm d) \<Longrightarrow> file_obj (i_document d) \<noteq> None"
  by (simp add: IdentityVerificationForm_validateForm_def fst_validateWith
      identityVerificationSchema_def fileSchema_Nil)

lemma professional_valid_has_files:
  assumes "fst (ProfessionalDetailsForm_validateForm d)"
  shows "file_obj (q_document (qualifications d)) \<noteq> None
       \<and> file_obj (b_document (barRegistration d)) \<noteq> None
       \<and> (\<forall>i < length (certifications d). file_obj (c_document (certifications d ! i)) \<noteq> None)"
proof -
  from assms have q: "qualificationSchema [Key ''qualifications''] (qualifications d) = []"
    and c: "z_array_min 1 ''At least one certification is required'' certificationSchema
              [Key ''certifications''] (certifications d) = []"
    and b: "barRegistrationSchema [Key ''barRegistration''] (barRegistration d) = []"
    by (simp_all add: ProfessionalDetailsForm_validateForm_def fst_validateWith
        professionalDetailsSchema_def)
  from q have "file_obj (q_document (qualifications d)) \<noteq> None"
    by (simp add: qualificationSchema_def fileSchema_Nil)
  moreover from b have "file_obj (b_document (barRegistration d)) \<noteq> None"
    by (simp add: barRegistrationSchema_def fileSchema_Nil)
  moreover from c have "\<forall>i < length (certifications d).
      file_obj (c_document (certifications d ! i)) \<noteq> None"
    by (simp add: z_array_min_Nil certificationSchema_def fileSchema_Nil)
  ultimately show ?thesis by simp
qed

text \<open>
  C5. A document slot without a file handle fails the "Document is required" check of
  its step's validator, whatever its preview (so also when the preview was restored from
  a draft): the error map of the identity-verification form holds the message at
  "document.file", and the error map of the professional-details form holds it at
  "qualifications.document.file", "barRegistration.document.file" and
  "certifications.i.document.file" for the slot in question. A slot with a file handle
  has no such entry, and a validator that succeeds has found a file handle in every slot
  of its step.
\<close>

theorem document_requires_file_handle:
  "snd (IdentityVerificationForm_validateForm iv) ''document.file'' =
     (if file_obj (i_document iv) = None then Some ''Document is required'' else None)
   \<and> snd (ProfessionalDetailsForm_validateForm pd) ''qualifications.document.file'' =
     (if file_obj (q_document (qualifications pd)) = None then Some ''Document is required''
      else None)
   \<and> snd (ProfessionalDetailsForm_validateForm pd) ''barRegistration.document.file'' =
     (if file_obj (b_document (barRegistration pd)) = None then Some ''Document is required''
      else None)
   \<and> (\<forall>i < length (certifications pd).
        snd (ProfessionalDetailsForm_validateForm pd)
          (''certifications.'' @ string_of_nat i @ ''.document.file'') =
        (if file_obj (c_document (certifications pd ! i)) = None
         then Some ''Document is required'' else None))
   \<and> (fst (IdentityVerificationForm_validateForm iv) \<longrightarrow> file_obj (i_document iv) \<noteq> None)
   \<and> (fst (ProfessionalDetailsForm_validateForm pd) \<longrightarrow>
        file_obj (q_document (qualifications pd)) \<noteq> None
        \<and> file_obj (b_document (barRegistration pd)) \<noteq> None
        \<and> (\<forall>i < length (certifications pd).
             file_obj (c_document (certifications pd ! i)) \<noteq> None))"
  using identity_document_entry [of iv] qualification_document_entry [of pd]
    barRegistration_document_entry [of pd] certification_document_entry [of _ pd]
    identity_valid_has_file [of iv] professional_valid_has_files [of pd]
  by blast

theorem document_requires_file_handle_witness:
  "snd (IdentityVerificationForm_validateForm
          \<lparr>idType = ''Passport'', idNumber = ''X1'', expiryDate = ''2030-01-01'',
           i_document = \<lparr>file_obj = None, preview = Some ''blob:id''\<rparr>\<rparr>) ''document.file''
     = Some ''Document is required''
   \<and> \<not> fst (IdentityVerificationForm_validateForm
          \<lparr>idType = ''Passport'', idNumber = ''X1'', expiryDate = ''2030-01-01'',
           i_document = \<lparr>file_obj = None, preview = Some ''blob:id''\<rparr>\<rparr>)
   \<and> snd (ProfessionalDetailsForm_validateForm
          \<lparr>qualifications =
             \<lparr>degreeType = ''Juris Doctor (JD)'', institutionName = ''Yale'',
              graduationYear = ''2010'',
              q_document = \<lparr>file_obj = None, preview = Some ''blob:degree''\<rparr>\<rparr>,
           certifications =
             [\<lparr>name = ''Mediation'', issuingBody = ''ABA'', date = ''2015-05-05'',
               c_document = \<lparr>file_obj = None, preview = Some ''blob:cert''\<rparr>\<rparr>],
           barRegistration =
             \<lparr>association = ''Texas Bar Association'', licenseNumber = ''77'',
              jurisdiction = ''Texas'', completionYear = ''2011'',
              b_document = \<lparr>file_obj = None, preview = Some ''blob:bar''\<rparr>\<rparr>\<rparr>)
        ''certifications.0.document.file''
     = Some ''Document is required''
   \<and> \<not> fst (ProfessionalDetailsForm_validateForm
          \<lparr>qualifications =
             \<lparr>degreeType = ''Juris Doctor (JD)'', institutionName = ''Yale'',
              graduationYear = ''2010'',
              q_document = \<lparr>file_obj = None, preview = Some ''blob:degree''\<rparr>\<rparr>,
           certifications =
             [\<lparr>name = ''Mediation'', issuingBody = ''ABA'', date = ''2015-05-05'',
               c_document = \<lparr>file_obj = None, preview = Some ''blob:cert''\<rparr>\<rparr>],
           barRegistration =
             \<lparr>association = ''Texas Bar Association'', licenseNumber = ''77'',
              jurisdiction = ''Texas'', completionYear = ''2011'',
              b_document = \<lparr>file_obj = None, preview = Some ''blob:bar''\<rparr>\<rparr>\<rparr>)"
proof -
  let ?iv = "\<lparr>idType = ''Passport'', idNumber = ''X1'', expiryDate = ''2030-01-01'',
           i_document = \<lparr>file_obj = None, preview = Some ''blob:id''\<rparr>\<rparr>"
  let ?pd = "\<lparr>qualifications =
             \<lparr>degreeType = ''Juris Doctor (JD)'', institutionName = ''Yale'',
              graduationYear = ''2010'',
              q_document = \<lparr>file_obj = None, preview = Some ''blob:degree''\<rparr>\<rparr>,
           certifications =
             [\<lparr>name = ''Mediation'', issuingBody = ''ABA'', date = ''2015-05-05'',
               c_document = \<lparr>file_obj = None, preview = Some ''blob:cert''\<rparr>\<rparr>],
           barRegistration =
             \<lparr>association = ''Texas Bar Association'', licenseNumber = ''77'',
              jurisdiction = ''Texas'', completionYear = ''2011'',
              b_document = \<lparr>file_obj = None, preview = Some ''blob:bar''\<rparr>\<rparr>\<rparr>"
  note inst = document_requires_file_handle [of ?iv ?pd]
  have zero: "''certifications.'' @ string_of_nat 0 @ ''.document.file''
      = ''certifications.0.document.file''"
    by (simp add: string_of_nat.simps digit_char_def)
  from inst have "snd (ProfessionalDetailsForm_validateForm ?pd)
          (''certifications.'' @ string_of_nat 0 @ ''.document.file'') =
        (if file_obj (c_document (certifications ?pd ! 0)) = None
         then Some ''Document is required'' else None)"
    by simp
  then have cert: "snd (ProfessionalDetailsForm_validateForm ?pd)
      ''certifications.0.document.file'' = Some ''Document is required''"
    unfolding zero by simp
  from inst have iv: "snd (IdentityVerificationForm_validateForm ?iv) ''document.file''
      = Some ''Document is required''"
    by simp
  from inst have niv: "\<not> fst (IdentityVerificationForm_validateForm ?iv)"
    by auto
  from inst have npd: "\<not> fst (ProfessionalDetailsForm_validateForm ?pd)"
    by auto
  from cert iv niv npd show ?thesis by blast
qed

section \<open>Properties of the step controller\<close>

lemma handleNext_steps:
  "currentStep s \<noteq> verificationStatus_step \<Longrightarrow>
     handleNext s = s\<lparr>animationDirection := forward, currentStep := spec_next_step (currentStep s)\<rparr>"
  by (cases "currentStep s") (simp_all add: handleNext_def steps_def)

lemma validateWith_failure_nonempty:
  "\<not> fst (validateWith issues) \<Longrightarrow> snd (validateWith issues) \<noteq> Map.empty"
  using formatErrors_nonempty [of issues] by (simp add: validateWith_def split: if_splits)

lemma validateWith_success_empty:
  "fst (validateWith issues) \<Longrightarrow> snd (validateWith issues) = Map.empty"
  by (simp add: validateWith_def split: if_splits)

lemma activeValidator_is_validateWith:
  "currentStep s \<noteq> verificationStatus_step \<Longrightarrow> \<exists>issues. activeValidator isEmail s = validateWith issues"
  by (cases "currentStep s")
     (auto simp add: activeValidator_def BasicDetailsForm_validateForm_def
        ProfessionalDetailsForm_validateForm_def ExperienceForm_validateForm_def
        IdentityVerificationForm_validateForm_def)

lemma advance_unfold:
  assumes "currentStep s \<noteq> verificationStatus_step"
  shows "advance isEmail s =
     (if fst (activeValidator isEmail s)
      then handleNext (s\<lparr>errors := snd (activeValidator isEmail s)\<rparr>)
      else s\<lparr>errors := snd (activeValidator isEmail s)\<rparr>)"
  using assms
  by (cases "currentStep s")
     (simp_all add: advance_def activeValidator_def BasicDetailsForm_handleSubmit_def
        ProfessionalDetailsForm_handleSubmit_def ExperienceForm_handleSubmit_def
        IdentityVerificationForm_handleSubmit_def Let_def split_beta)

text \<open>
  C4. On every step but the last, advancing runs the validator of the form of that
  step. When it fails, the wizard is unchanged but for the form's error map, which
  becomes the (non-empty) map of the validator's messages; the step stays. When it
  succeeds, the error map is empty, the step becomes the next one of the fixed order and
  the direction is forward; the form data is untouched in both cases.
\<close>

theorem advance_gated_by_validator:
  assumes "currentStep s \<noteq> verificationStatus_step"
  shows "(\<not> fst (activeValidator isEmail s) \<longrightarrow>
            advance isEmail s = s\<lparr>errors := snd (activeValidator isEmail s)\<rparr>
            \<and> currentStep (advance isEmail s) = currentStep s
            \<and> snd (activeValidator isEmail s) \<noteq> Map.empty)
       \<and> (fst (activeValidator isEmail s) \<longrightarrow>
            advance isEmail s =
              s\<lparr>errors := Map.empty, animationDirection := forward,
                currentStep := spec_next_step (currentStep s)\<rparr>
            \<and> currentStep (advance isEmail s) = spec_next_step (currentStep s)
            \<and> animationDirection (advance isEmail s) = forward)"
proof -
  obtain issues where v: "activeValidator isEmail s = validateWith issues"
    using activeValidator_is_validateWith [OF assms] by blast
  show ?thesis
  proof (cases "fst (activeValidator isEmail s)")
    case True
    then have "snd (activeValidator isEmail s) = Map.empty"
      using v validateWith_success_empty by simp
    with True show ?thesis
      using assms by (simp add: advance_unfold handleNext_steps)
  next
    case False
    then have "snd (activeValidator isEmail s) \<noteq> Map.empty"
      using v validateWith_failure_nonempty by simp
    with False show ?thesis
      using assms by (simp add: advance_unfold)
  qed
qed

theorem advance_gated_by_validator_witness:
  "advance (\<lambda>v. CHR ''@'' \<in> set v) initialState =
     initialState\<lparr>errors := [''firstName'' \<mapsto> ''First name is required'',
                              ''lastName'' \<mapsto> ''Last name is required'',
                              ''email'' \<mapsto> ''Invalid email address'']\<rparr>
   \<and> advance (\<lambda>v. CHR ''@'' \<in> set v)
       (initialState\<lparr>formData := initialFormData
          \<lparr>basicDetails := \<lparr>firstName = ''Ann'', lastName = ''Doe'', email = ''a@b.com''\<rparr>\<rparr>\<rparr>)
     = initialState\<lparr>formData := initialFormData
          \<lparr>basicDetails := \<lparr>firstName = ''Ann'', lastName = ''Doe'', email = ''a@b.com''\<rparr>\<rparr>,
          currentStep := professionalDetails_step\<rparr>"
proof -
  let ?isEmail = "\<lambda>v. CHR ''@'' \<in> set v"
  let ?s = "initialState\<lparr>formData := initialFormData
          \<lparr>basicDetails := \<lparr>firstName = ''Ann'', lastName = ''Doe'', email = ''a@b.com''\<rparr>\<rparr>\<rparr>"
  have a: "activeValidator ?isEmail initialState =
      (False, [''firstName'' \<mapsto> ''First name is required'',
               ''lastName'' \<mapsto> ''Last name is required'',
               ''email'' \<mapsto> ''Invalid email address''])"
    by (simp add: activeValidator_def initialState_def initialFormData_def
        BasicDetailsForm_validateForm_def validateWith_def basicDetailsSchema_def
        z_string_min_def z_string_email_def formatErrors_def)
  have b: "activeValidator ?isEmail ?s = (True, Map.empty)"
    by (simp add: activeValidator_def initialState_def initialFormData_def
        BasicDetailsForm_validateForm_def validateWith_def basicDetailsSchema_def
        z_string_min_def z_string_email_def formatErrors_def)
  have "currentStep initialState \<noteq> verificationStatus_step"
    by (simp add: initialState_def)
  from advance_gated_by_validator [OF this, of ?isEmail]
  have 1: "advance ?isEmail initialState =
     initialState\<lparr>errors := [''firstName'' \<mapsto> ''First name is required'',
                              ''lastName'' \<mapsto> ''Last name is required'',
                              ''email'' \<mapsto> ''Invalid email address'']\<rparr>"
    by (simp add: a)
  have "currentStep ?s \<noteq> verificationStatus_step"
    by (simp add: initialState_def)
  from advance_gated_by_validator [OF this, of ?isEmail]
  have 2: "advance ?isEmail ?s =
      ?s\<lparr>errors := Map.empty, animationDirection := forward,
          currentStep := spec_next_step (currentStep ?s)\<rparr>"
    by (simp add: b)
  have 3: "?s\<lparr>errors := Map.empty, animationDirection := forward,
          currentStep := spec_next_step (currentStep ?s)\<rparr>
     = initialState\<lparr>formData := initialFormData
          \<lparr>basicDetails := \<lparr>firstName = ''Ann'', lastName = ''Doe'', email = ''a@b.com''\<rparr>\<rparr>,
          currentStep := professionalDetails_step\<rparr>"
    by (simp add: initialState_def)
  from 1 2 3 show ?thesis by simp
qed

section \<open>The lists of certifications and positions never become empty\<close>

lemma length_splice1:
  "2 \<le> length xs \<Longrightarrow> 1 \<le> length (splice1 index xs)"
  by (auto simp add: splice1_def Let_def min_def max_def)

lemma certification_op_keeps_one:
  "1 \<le> length (certifications d) \<Longrightarrow> 1 \<le> length (certifications (certification_op d op))"
proof (cases op)
  case Add
  then show ?thesis by (simp add: handleAddCertification_def)
next
  case (Remove index)
  assume "1 \<le> length (certifications d)"
  then show ?thesis
    using length_splice1 [of "certifications d" index]
    by (simp add: Remove handleRemoveCertification_def)
qed

lemma position_op_keeps_one:
  "1 \<le> length (positions d) \<Longrightarrow> 1 \<le> length (positions (position_op d op))"
proof (cases op)
  case Add
  then show ?thesis by (simp add: handleAddPosition_def)
next
  case (Remove index)
  assume "1 \<le> length (positions d)"
  then show ?thesis
    using length_splice1 [of "positions d" index]
    by (simp add: Remove handleRemovePosition_def)
qed

lemma certification_ops_keep_one:
  "1 \<le> length (certifications d) \<Longrightarrow> 1 \<le> length (certifications (foldl certification_op d ops))"
proof (induction ops arbitrary: d)
  case Nil
  then show ?case by simp
next
  case (Cons op ops)
  from Cons.IH [OF certification_op_keeps_one [OF Cons.prems, of op]]
  show ?case by simp
qed

lemma position_ops_keep_one:
  "1 \<le> length (positions d) \<Longrightarrow> 1 \<le> length (positions (foldl position_op d ops))"
proof (induction ops arbitrary: d)
  case Nil
  then show ?case by simp
next
  case (Cons op ops)
  from Cons.IH [OF position_op_keeps_one [OF Cons.prems, of op]]
  show ?case by simp
qed

text \<open>
  C10. Removing a certification or a position is refused when the list has exactly one
  entry (the data is returned as it is); adding and removing keep a list of at least
  one entry at at least one entry; and so, from the initial form data (one certification,
  one position), no sequence of additions and removals, at whatever indices, empties
  either list.
\<close>

theorem lists_never_empty:
  "(length (certifications pd) = 1 \<longrightarrow> handleRemoveCertification index pd = pd)
   \<and> (length (positions ex) = 1 \<longrightarrow> handleRemovePosition index ex = ex)
   \<and> (1 \<le> length (certifications pd) \<longrightarrow>
        1 \<le> length (certifications (handleRemoveCertification index pd))
        \<and> 1 \<le> length (certifications (handleAddCertification pd)))
   \<and> (1 \<le> length (positions ex) \<longrightarrow>
        1 \<le> length (positions (handleRemovePosition index ex))
        \<and> 1 \<le> length (positions (handleAddPosition ex)))
   \<and> length (certifications (professionalDetails initialFormData)) = 1
   \<and> length (positions (experience initialFormData)) = 1
   \<and> 1 \<le> length (certifications
              (foldl certification_op (professionalDetails initialFormData) ops))
   \<and> 1 \<le> length (positions (foldl position_op (experience initialFormData) ops'))"
proof -
  have "1 \<le> length (certifications pd) \<longrightarrow>
        1 \<le> length (certifications (handleRemoveCertification index pd))
        \<and> 1 \<le> length (certifications (handleAddCertification pd))"
    using certification_op_keeps_one [of pd "Remove index"]
      certification_op_keeps_one [of pd Add] by simp
  moreover have "1 \<le> length (positions ex) \<longrightarrow>
        1 \<le> length (positions (handleRemovePosition index ex))
        \<and> 1 \<le> length (positions (handleAddPosition ex))"
    using position_op_keeps_one [of ex "Remove index"] position_op_keeps_one [of ex Add]
    by simp
  moreover have "1 \<le> length (certifications
              (foldl certification_op (professionalDetails initialFormData) ops))"
    by (rule certification_ops_keep_one) (simp add: initialFormData_def)
  moreover have "1 \<le> length (positions (foldl position_op (experience initialFormData) ops'))"
    by (rule position_ops_keep_one) (simp add: initialFormData_def)
  ultimately show ?thesis
    by (simp add: handleRemoveCertification_def handleRemovePosition_def initialFormData_def)
qed

theorem lists_never_empty_witness:
  "handleRemoveCertification 0 (professionalDetails initialFormData) =
     professionalDetails initialFormData
   \<and> handleRemovePosition 0 (experience initialFormData) = experience initialFormData
   \<and> 1 \<le> length (certifications
        (foldl certification_op (professionalDetails initialFormData)
           [Remove 0, Add, Remove 1, Remove 0, Remove (- 1)]))
   \<and> 1 \<le> length (positions
        (foldl position_op (experience initialFormData)
           [Remove 0, Add, Add, Remove 5, Remove 0, Remove 0, Remove 0]))"
  using lists_never_empty [of "professionalDetails initialFormData" 0 "experience initialFormData"
      "[Remove 0, Add, Remove 1, Remove 0, Remove (- 1)]"
      "[Remove 0, Add, Add, Remove 5, Remove 0, Remove 0, Remove 0]"]
  by blast

section \<open>Properties of the draft codec\<close>

lemma as_nullable_string_json [simp]:
  "as_nullable_string (json_of_nullable_string p) = Some p"
  by (cases p) simp_all

lemma replacer_file_null [simp]: "replacer_file f = JNull"
  by (cases f) simp_all

lemma as_FormFile_json [simp]: "as_FormFile (json_of_FormFile d) = Some (strip_FormFile d)"
  by (simp add: as_FormFile_def json_of_FormFile_def strip_FormFile_def)

lemma as_Qualification_json [simp]:
  "as_Qualification (json_of_Qualification q) =
     Some (q\<lparr>q_document := strip_FormFile (q_document q)\<rparr>)"
  by (simp add: as_Qualification_def json_of_Qualification_def)

lemma as_Certification_json [simp]:
  "as_Certification (json_of_Certification c) =
     Some (c\<lparr>c_document := strip_FormFile (c_document c)\<rparr>)"
  by (simp add: as_Certification_def json_of_Certification_def)

lemma as_BarRegistration_json [simp]:
  "as_BarRegistration (json_of_BarRegistration b) =
     Some (b\<lparr>b_document := strip_FormFile (b_document b)\<rparr>)"
  by (simp add: as_BarRegistration_def json_of_BarRegistration_def)

lemma as_Position_json [simp]: "as_Position (json_of_Position p) = Some p"
  by (simp add: as_Position_def json_of_Position_def)

lemma as_IdentityVerification_json [simp]:
  "as_IdentityVerification (json_of_IdentityVerification d) =
     Some (d\<lparr>i_document := strip_FormFile (i_document d)\<rparr>)"
  by (simp add: as_IdentityVerification_def json_of_IdentityVerification_def)

lemma as_BasicDetails_json [simp]: "as_BasicDetails (json_of_BasicDetails d) = Some d"
  by (simp add: as_BasicDetails_def json_of_BasicDetails_def)

lemma those_map_comp:
  "(\<And>x. f (g x) = Some (h x)) \<Longrightarrow> those (map (f \<circ> g) xs) = Some (map h xs)"
  by (induction xs) simp_all

lemma those_Certifications [simp]:
  "those (map (as_Certification \<circ> json_of_Certification) cs) =
     Some (map (\<lambda>c. c\<lparr>c_document := strip_FormFile (c_document c)\<rparr>) cs)"
  by (rule those_map_comp) simp

lemma those_Positions [simp]:
  "those (map (as_Position \<circ> json_of_Position) ps) = Some ps"
  using those_map_comp [of as_Position json_of_Position "\<lambda>p. p" ps] by simp

lemma as_ProfessionalDetails_json [simp]:
  "as_ProfessionalDetails (json_of_ProfessionalDetails d) =
     Some (d\<lparr>qualifications :=
               (qualifications d)\<lparr>q_document := strip_FormFile (q_document (qualifications d))\<rparr>,
             certifications :=
               map (\<lambda>c. c\<lparr>c_document := strip_FormFile (c_document c)\<rparr>) (certifications d),
             barRegistration :=
               (barRegistration d)
                 \<lparr>b_document := strip_FormFile (b_document (barRegistration d))\<rparr>\<rparr>)"
  by (simp add: as_ProfessionalDetails_def json_of_ProfessionalDetails_def)

lemma as_Experience_json [simp]: "as_Experience (json_of_Experience d) = Some d"
  by (simp add: as_Experience_def json_of_Experience_def)

lemma as_FormData_json: "as_FormData (json_of_FormData d) = Some (strip_files d)"
  by (simp add: as_FormData_def json_of_FormData_def strip_files_def)

text \<open>
  The previews that \<^verbatim>\<open>handleSaveDraft\<close> has written beside a draft are the previews of
  the draft, so writing them over the parsed draft changes nothing and throws nothing.
\<close>

lemma truthy_preview_json:
  "truthy_preview (json_of_preview d) =
     Inr (case preview d of
            None \<Rightarrow> None
          | Some p \<Rightarrow> if p = [] then None else Some (JString p))"
  by (cases "preview d") (simp_all add: truthy_preview_def json_of_preview_def)

lemma restore_FormFile_same:
  assumes "get_member fileRefs k = Inr (Some (json_of_preview d'))"
    and "preview d = preview d'"
  shows "restore_FormFile fileRefs k d = Inr (None, d)"
proof -
  have "truthy (json_of_preview d')"
    by (simp add: json_of_preview_def)
  then have "section_preview fileRefs k = truthy_preview (json_of_preview d')"
    using assms(1) by (simp add: section_preview_def)
  then show ?thesis
    using assms(2)
    by (cases "preview d'") (auto simp add: restore_FormFile_def truthy_preview_json)
qed

lemma restore_certification_same:
  assumes "\<forall>(index, cert) \<in> set ics.
             index < length certs \<longrightarrow> cert = json_of_preview (c_document (certs ! index))"
  shows "restore_certification ics certs = Inr (None, certs)"
  using assms
proof (induction ics)
  case Nil
  then show ?case by simp
next
  case (Cons ic ics)
  obtain index cert where ic: "ic = (index, cert)" by (cases ic)
  have rest: "restore_certification ics certs = Inr (None, certs)"
    using Cons by simp
  show ?case
  proof (cases "index < length certs")
    case False
    then show ?thesis by (simp add: ic rest)
  next
    case True
    then have cert: "cert = json_of_preview (c_document (certs ! index))"
      using Cons.prems by (simp add: ic)
    show ?thesis
    proof (cases "preview (c_document (certs ! index))")
      case None
      then show ?thesis
        using True by (simp add: ic cert truthy_preview_json rest)
    next
      case (Some p)
      then have "certs[index := (certs ! index)
                   \<lparr>c_document := (c_document (certs ! index))\<lparr>preview := Some p\<rparr>\<rparr>] = certs"
        by (simp add: list_update_same_conv True)
      then show ?thesis
        using True Some by (simp add: ic cert truthy_preview_json rest)
    qed
  qed
qed

lemma restore_certifications_same:
  assumes "get_member fileRefs ''certifications'' =
             Inr (Some (JArray (map (\<lambda>cert. json_of_preview (c_document cert)) certs)))"
  shows "restore_certifications fileRefs certs = Inr (None, certs)"
proof -
  have "restore_certification
          (enumerate 0 (map (\<lambda>cert. json_of_preview (c_document cert)) certs)) certs
        = Inr (None, certs)"
    by (rule restore_certification_same) (auto simp add: in_set_enumerate_eq)
  then show ?thesis
    using assms by (simp add: restore_certifications_def)
qed

lemma preview_strip [simp]: "preview (strip_FormFile d) = preview d"
  by (simp add: strip_FormFile_def)

lemma json_of_preview_strip [simp]: "json_of_preview (strip_FormFile d) = json_of_preview d"
  by (simp add: json_of_preview_def)

lemma restore_qualifications_own:
  "restore_qualifications (json_of_fileRefs d) (strip_files d) = Inr (None, strip_files d)"
proof -
  have "restore_FormFile (json_of_fileRefs d) ''qualifications''
          (q_document (qualifications (professionalDetails (strip_files d))))
        = Inr (None, q_document (qualifications (professionalDetails (strip_files d))))"
    by (rule restore_FormFile_same
          [where d' = "q_document (qualifications (professionalDetails d))"])
       (simp_all add: json_of_fileRefs_def strip_files_def)
  then show ?thesis
    by (simp add: restore_qualifications_def)
qed

lemma restore_barRegistration_own:
  "restore_barRegistration (json_of_fileRefs d) (strip_files d) = Inr (None, strip_files d)"
proof -
  have "restore_FormFile (json_of_fileRefs d) ''barRegistration''
          (b_document (barRegistration (professionalDetails (strip_files d))))
        = Inr (None, b_document (barRegistration (professionalDetails (strip_files d))))"
    by (rule restore_FormFile_same
          [where d' = "b_document (barRegistration (professionalDetails d))"])
       (simp_all add: json_of_fileRefs_def strip_files_def)
  then show ?thesis
    by (simp add: restore_barRegistration_def)
qed

lemma restore_certification_previews_own:
  "restore_certification_previews (json_of_fileRefs d) (strip_files d) =
     Inr (None, strip_files d)"
proof -
  have "restore_certifications (json_of_fileRefs d)
          (certifications (professionalDetails (strip_files d)))
        = Inr (None, certifications (professionalDetails (strip_files d)))"
    by (rule restore_certifications_same)
       (simp add: json_of_fileRefs_def strip_files_def comp_def)
  then show ?thesis
    by (simp add: restore_certification_previews_def)
qed

lemma restore_identityVerification_own:
  "restore_identityVerification (json_of_fileRefs d) (strip_files d) =
     Inr (None, strip_files d)"
proof -
  have "restore_FormFile (json_of_fileRefs d) ''identityVerification''
          (i_document (identityVerification (strip_files d)))
        = Inr (None, i_document (identityVerification (strip_files d)))"
    by (rule restore_FormFile_same [where d' = "i_document (identityVerification d)"])
       (simp_all add: json_of_fileRefs_def strip_files_def)
  then show ?thesis
    by (simp add: restore_identityVerification_def)
qed

lemma restorePreviews_own:
  "restorePreviews (json_of_fileRefs d) (strip_files d) = Inr (None, strip_files d)"
  by (simp add: restorePreviews_def and_then_def restore_qualifications_own
      restore_barRegistration_own restore_certification_previews_own
      restore_identityVerification_own)

lemma strip_files_id:
  assumes "no_files d"
  shows "strip_files d = d"
proof -
  have "map (\<lambda>c. c\<lparr>c_document := strip_FormFile (c_document c)\<rparr>)
          (certifications (professionalDetails d)) = certifications (professionalDetails d)"
    using assms by (simp add: no_files_def list_all_iff strip_FormFile_def map_idI)
  then show ?thesis
    using assms by (simp add: strip_files_def no_files_def strip_FormFile_def)
qed

lemma load_after_save:
  "loadDraft (fst (handleSaveDraft s st)) s0 =
     Inr (s0\<lparr>formData := strip_files (formData s)\<rparr>, [draft_loaded_toast])"
  by (simp add: loadDraft_def handleSaveDraft_def getItem_def setItem_def STORAGE_KEY_def
      FILES_STORAGE_KEY_def JSON_stringify_def as_FormData_json restorePreviews_own)




















text \<open>
  C1, as the claim states it, does not hold: the draft holds the form data only. A
  user fills in the basic details and continues to the professional details; there the
  wizard is saved, with no file and no preview in any slot. The wizard that is mounted
  afterwards loads the draft and has the same form data, but stands on the first step,
  so its state is not the state that was saved.
\<close>

theorem save_load_loses_current_step:
  "no_files
     (formData
        (initialState
           \<lparr>formData := initialFormData
              \<lparr>basicDetails := \<lparr>firstName = ''Ann'', lastName = ''Doe'', email = ''a@b.com''\<rparr>\<rparr>,
            currentStep := professionalDetails_step\<rparr>))
   \<and> loadDraft
       (fst (handleSaveDraft
          (initialState
             \<lparr>formData := initialFormData
                \<lparr>basicDetails := \<lparr>firstName = ''Ann'', lastName = ''Doe'', email = ''a@b.com''\<rparr>\<rparr>,
              currentStep := professionalDetails_step\<rparr>)
          Map.empty))
       initialState
     = Inr (initialState
             \<lparr>formData := initialFormData
                \<lparr>basicDetails := \<lparr>firstName = ''Ann'', lastName = ''Doe'', email = ''a@b.com''\<rparr>\<rparr>\<rparr>,
            [draft_loaded_toast])
   \<and> initialState
        \<lparr>formData := initialFormData
           \<lparr>basicDetails := \<lparr>firstName = ''Ann'', lastName = ''Doe'', email = ''a@b.com''\<rparr>\<rparr>\<rparr>
     \<noteq> initialState
        \<lparr>formData := initialFormData
           \<lparr>basicDetails := \<lparr>firstName = ''Ann'', lastName = ''Doe'', email = ''a@b.com''\<rparr>\<rparr>,
         currentStep := professionalDetails_step\<rparr>"
proof -
  let ?fd = "initialFormData
           \<lparr>basicDetails := \<lparr>firstName = ''Ann'', lastName = ''Doe'', email = ''a@b.com''\<rparr>\<rparr>"
  let ?s = "initialState\<lparr>formData := ?fd, currentStep := professionalDetails_step\<rparr>"
  have nf: "no_files (formData ?s)"
    by (simp add: no_files_def initialState_def initialFormData_def initialQualification_def
        initialCertification_def initialBarRegistration_def)
  have "loadDraft (fst (handleSaveDraft ?s Map.empty)) initialState
        = Inr (initialState\<lparr>formData := strip_files (formData ?s)\<rparr>, [draft_loaded_toast])"
    by (rule load_after_save)
  also have "strip_files (formData ?s) = ?fd"
    using strip_files_id [OF nf] by simp
  finally have loaded: "loadDraft (fst (handleSaveDraft ?s Map.empty)) initialState
        = Inr (initialState\<lparr>formData := ?fd\<rparr>, [draft_loaded_toast])" .
  have "initialState\<lparr>formData := ?fd\<rparr> \<noteq> ?s"
  proof
    assume "initialState\<lparr>formData := ?fd\<rparr> = ?s"
    then have "currentStep (initialState\<lparr>formData := ?fd\<rparr>) = currentStep ?s" by simp
    then show False by (simp add: initialState_def)
  qed
  with nf loaded show ?thesis by blast
qed

text \<open>
  C1, amended. Saving a wizard state and then loading, on whatever state the wizard has
  when it loads, succeeds and replaces the form data by the saved form data with every
  file handle removed; every other field of the form data, the previews among them, is
  as it was saved. So when no slot of the saved form data holds a file, the loaded form
  data is the saved form data. The current step, the direction and the errors are those
  of the loading wizard, not of the saved one.
\<close>

theorem save_then_load_form_data:
  "loadDraft (fst (handleSaveDraft s st)) s0 =
     Inr (s0\<lparr>formData := strip_files (formData s)\<rparr>, [draft_loaded_toast])
   \<and> (no_files (formData s) \<longrightarrow>
        loadDraft (fst (handleSaveDraft s st)) s0 =
          Inr (s0\<lparr>formData := formData s\<rparr>, [draft_loaded_toast]))"
  using load_after_save [of s st s0] strip_files_id [of "formData s"] by simp

theorem save_then_load_form_data_witness:
  "loadDraft
     (fst (handleSaveDraft
        (initialState
           \<lparr>formData := initialFormData
              \<lparr>basicDetails := \<lparr>firstName = ''Ann'', lastName = ''Doe'', email = ''a@b.com''\<rparr>,
               identityVerification :=
                 \<lparr>idType = ''Passport'', idNumber = ''X1'', expiryDate = ''2030-01-01'',
                  i_document = \<lparr>file_obj = None, preview = Some ''blob:id''\<rparr>\<rparr>\<rparr>,
            currentStep := identityVerification_step\<rparr>)
        Map.empty))
     initialState
   = Inr (initialState
           \<lparr>formData := initialFormData
              \<lparr>basicDetails := \<lparr>firstName = ''Ann'', lastName = ''Doe'', email = ''a@b.com''\<rparr>,
               identityVerification :=
                 \<lparr>idType = ''Passport'', idNumber = ''X1'', expiryDate = ''2030-01-01'',
                  i_document = \<lparr>file_obj = None, preview = Some ''blob:id''\<rparr>\<rparr>\<rparr>\<rparr>,
          [draft_loaded_toast])"
proof -
  let ?fd = "initialFormData
              \<lparr>basicDetails := \<lparr>firstName = ''Ann'', lastName = ''Doe'', email = ''a@b.com''\<rparr>,
               identityVerification :=
                 \<lparr>idType = ''Passport'', idNumber = ''X1'', expiryDate = ''2030-01-01'',
                  i_document = \<lparr>file_obj = None, preview = Some ''blob:id''\<rparr>\<rparr>\<rparr>"
  let ?s = "initialState\<lparr>formData := ?fd, currentStep := identityVerification_step\<rparr>"
  have nf: "no_files (formData ?s)"
    by (simp add: no_files_def initialState_def initialFormData_def initialQualification_def
        initialCertification_def initialBarRegistration_def)
  have fd: "formData ?s = ?fd"
    by simp
  from save_then_load_form_data [of ?s Map.empty initialState] nf
  have "loadDraft (fst (handleSaveDraft ?s Map.empty)) initialState =
          Inr (initialState\<lparr>formData := formData ?s\<rparr>, [draft_loaded_toast])"
    by blast
  then show ?thesis
    unfolding fd .
qed




end
